theory Spec2Isabelle
  imports Complex_Main "HOL-Library.Multiset" "HOL-Library.List_Lexorder" "HOL-Library.Char_ord"
begin

section \<open>Python values and exceptions\<close>

text \<open>
  The plan file and the replies of the pricing service are JSON documents, read by
  \<^verbatim>\<open>json.load\<close> and \<^verbatim>\<open>response.json()\<close> into Python values. Python's
  \<^verbatim>\<open>None\<close> is \<open>JNull\<close>; a dict is an association list read with \<open>map_of\<close>.
  Numbers are real numbers: the rounding of binary floating point, and the values
  \<^verbatim>\<open>nan\<close> and \<^verbatim>\<open>inf\<close>, are not part of the model.
\<close>

datatype json =
    JNull
  | JBool bool
  | JNum real
  | JStr string
  | JArr "json list"
  | JObj "(string \<times> json) list"

type_synonym dict = "(string \<times> json) list"

text \<open>
  The exceptions the code can meet. \<open>PlanNotLoaded\<close> is the
  \<^verbatim>\<open>ValueError("Plan data not loaded. Call load_plan() first.")\<close> of the plan parser (the
  specification's InvalidState); \<open>ValueError\<close> stands for every other \<^verbatim>\<open>ValueError\<close>.
  \<open>RequestError\<close> is any failure of the HTTP request, \<open>FileNotFoundError\<close>,
  \<open>UnicodeError\<close> and \<open>JSONDecodeError\<close> are the failures of reading the plan file.
\<close>

datatype error =
    PlanNotLoaded
  | ValueError
  | TypeError
  | AttributeError
  | IndexError
  | KeyError
  | RequestError
  | FileNotFoundError
  | UnicodeError
  | JSONDecodeError

text \<open>Truth value of a Python object, as \<^verbatim>\<open>if x:\<close> and \<^verbatim>\<open>not x\<close> test it.\<close>

fun truthy :: "json \<Rightarrow> bool" where
  "truthy JNull = False"
| "truthy (JBool b) = b"
| "truthy (JNum r) = (r \<noteq> 0)"
| "truthy (JStr s) = (s \<noteq> [])"
| "truthy (JArr xs) = (xs \<noteq> [])"
| "truthy (JObj kvs) = (kvs \<noteq> [])"

text \<open>\<^verbatim>\<open>d.get(k, dflt)\<close> on a dict.\<close>

definition dict_get :: "dict \<Rightarrow> string \<Rightarrow> json \<Rightarrow> json" where
  "dict_get d k dflt = (case map_of d k of None \<Rightarrow> dflt | Some v \<Rightarrow> v)"

text \<open>\<^verbatim>\<open>x.get(k, dflt)\<close> on any value: only a dict has the method.\<close>

fun py_get :: "json \<Rightarrow> string \<Rightarrow> json \<Rightarrow> error + json" where
  "py_get (JObj d) k dflt = Inr (dict_get d k dflt)"
| "py_get _ k dflt = Inl AttributeError"

text \<open>
  The receiver of \<^verbatim>\<open>.get\<close> has to be a dict: every other value raises
  \<^verbatim>\<open>AttributeError\<close>.
\<close>

fun as_dict :: "json \<Rightarrow> error + dict" where
  "as_dict (JObj d) = Inr d"
| "as_dict _ = Inl AttributeError"

text \<open>\<^verbatim>\<open>x[0]\<close>: the keys of a dict read from JSON are strings, so \<open>0\<close> is never one.\<close>

fun py_index0 :: "json \<Rightarrow> error + json" where
  "py_index0 (JArr []) = Inl IndexError"
| "py_index0 (JArr (x # xs)) = Inr x"
| "py_index0 (JStr []) = Inl IndexError"
| "py_index0 (JStr (c # cs)) = Inr (JStr [c])"
| "py_index0 (JObj d) = Inl KeyError"
| "py_index0 _ = Inl TypeError"

text \<open>A list or a dict cannot be a dictionary key or a set element.\<close>

fun hashable :: "json \<Rightarrow> bool" where
  "hashable (JArr xs) = False"
| "hashable (JObj d) = False"
| "hashable _ = True"

text \<open>\<^verbatim>\<open>table.get(key)\<close> on a table whose keys are strings.\<close>

fun table_get :: "(string \<times> 'a) list \<Rightarrow> json \<Rightarrow> error + 'a option" where
  "table_get t (JStr s) = Inr (map_of t s)"
| "table_get t (JArr xs) = Inl TypeError"
| "table_get t (JObj d) = Inl TypeError"
| "table_get t _ = Inr None"

fun is_substring :: "string \<Rightarrow> string \<Rightarrow> bool" where
  "is_substring k [] = (k = [])"
| "is_substring k (c # s) = (take (length k) (c # s) = k \<or> is_substring k s)"

text \<open>\<^verbatim>\<open>k in x\<close> for a string \<open>k\<close>.\<close>

fun py_contains :: "json \<Rightarrow> string \<Rightarrow> error + bool" where
  "py_contains (JObj d) k = Inr (map_of d k \<noteq> None)"
| "py_contains (JArr xs) k = Inr (JStr k \<in> set xs)"
| "py_contains (JStr s) k = Inr (is_substring k s)"
| "py_contains _ k = Inl TypeError"

text \<open>\<^verbatim>\<open>x[k]\<close> for a string \<open>k\<close>.\<close>

fun py_getitem :: "json \<Rightarrow> string \<Rightarrow> error + json" where
  "py_getitem (JObj d) k = (case map_of d k of None \<Rightarrow> Inl KeyError | Some v \<Rightarrow> Inr v)"
| "py_getitem _ k = Inl TypeError"

text \<open>The elements a \<^verbatim>\<open>for\<close> loop over a value visits.\<close>

fun py_iter :: "json \<Rightarrow> error + json list" where
  "py_iter (JArr xs) = Inr xs"
| "py_iter (JObj d) = Inr (map (\<lambda>kv. JStr (fst kv)) d)"
| "py_iter (JStr s) = Inr (map (\<lambda>c. JStr [c]) s)"
| "py_iter _ = Inl TypeError"

text \<open>Sequencing of steps that may raise: the first exception ends the computation.\<close>

definition and_then :: "error + 'a \<Rightarrow> ('a \<Rightarrow> error + 'b) \<Rightarrow> error + 'b" where
  "and_then m f = (case m of Inl e \<Rightarrow> Inl e | Inr v \<Rightarrow> f v)"

section \<open>Plan parser (plan\_parser.py)\<close>

text \<open>
  \<open>plan_data\<close> is \<^verbatim>\<open>None\<close> until \<^verbatim>\<open>load_plan\<close> has stored the parsed document.
  The file system is outside the model: \<open>load_plan\<close> receives the outcome of opening and
  parsing the file with the encoding \<^verbatim>\<open>utf-8-sig\<close> and the outcome with \<^verbatim>\<open>utf-8\<close>.
\<close>

record PlanParser =
  plan_data :: json

definition new_parser :: PlanParser where
  "new_parser = \<lparr>plan_data = JNull\<rparr>"

definition load_plan :: "(error + json) \<Rightarrow> (error + json) \<Rightarrow> PlanParser \<Rightarrow> error + PlanParser" where
  "load_plan read_sig read_plain p =
     (case read_sig of
        Inr v \<Rightarrow> Inr (p\<lparr>plan_data := v\<rparr>)
      | Inl e \<Rightarrow>
          if e = UnicodeError \<or> e = JSONDecodeError then
            (case read_plain of
               Inr v \<Rightarrow> Inr (p\<lparr>plan_data := v\<rparr>)
             | Inl e' \<Rightarrow> Inl e')
          else Inl e)"

text \<open>The test \<^verbatim>\<open>change.get('change', {}).get('actions') in [['create'], ['update']]\<close>.\<close>

definition wanted_actions :: "json \<Rightarrow> error + bool" where
  "wanted_actions change =
     (case py_get change ''change'' (JObj []) of
        Inl e \<Rightarrow> Inl e
      | Inr ch \<Rightarrow>
          (case py_get ch ''actions'' JNull of
             Inl e \<Rightarrow> Inl e
           | Inr actions \<Rightarrow>
               Inr (actions \<in> set [JArr [JStr ''create''], JArr [JStr ''update'']])))"

definition extract_resource_config :: "json \<Rightarrow> error + dict" where
  "extract_resource_config change =
     and_then (as_dict change) (\<lambda>c.
     and_then (as_dict (dict_get c ''change'' (JObj []))) (\<lambda>ch.
     and_then (as_dict (dict_get ch ''after'' (JObj []))) (\<lambda>after_values.
        Inr [(''type'', dict_get c ''type'' (JStr '''')),
             (''name'', dict_get c ''name'' (JStr '''')),
             (''address'', dict_get c ''address'' (JStr '''')),
             (''location'', dict_get after_values ''location'' JNull),
             (''sku'', dict_get after_values ''sku'' JNull),
             (''size'', dict_get after_values ''size'' JNull),
             (''tier'', dict_get after_values ''tier'' JNull),
             (''capacity'', dict_get after_values ''capacity'' JNull),
             (''account_type'', dict_get after_values ''account_type'' JNull),
             (''account_replication_type'',
                dict_get after_values ''account_replication_type'' JNull),
             (''raw_values'', JObj after_values)])))"

text \<open>The loop of \<^verbatim>\<open>get_resource_changes\<close> over the entries, appending to \<open>acc\<close>.\<close>

fun collect_changes :: "dict list \<Rightarrow> json list \<Rightarrow> error + dict list" where
  "collect_changes acc [] = Inr acc"
| "collect_changes acc (change # rest) =
     (case wanted_actions change of
        Inl e \<Rightarrow> Inl e
      | Inr False \<Rightarrow> collect_changes acc rest
      | Inr True \<Rightarrow>
          (case extract_resource_config change of
             Inl e \<Rightarrow> Inl e
           | Inr config \<Rightarrow> collect_changes (acc @ [config]) rest))"

definition get_resource_changes :: "PlanParser \<Rightarrow> error + dict list" where
  "get_resource_changes p =
     (if \<not> truthy (plan_data p) then Inl PlanNotLoaded
      else
        (case py_contains (plan_data p) ''resource_changes'' of
           Inl e \<Rightarrow> Inl e
         | Inr False \<Rightarrow> Inr []
         | Inr True \<Rightarrow>
             (case py_getitem (plan_data p) ''resource_changes'' of
                Inl e \<Rightarrow> Inl e
              | Inr rcs \<Rightarrow>
                  (case py_iter rcs of
                     Inl e \<Rightarrow> Inl e
                   | Inr changes \<Rightarrow> collect_changes [] changes))))"

definition get_resource_count :: "PlanParser \<Rightarrow> error + nat" where
  "get_resource_count p =
     (if \<not> truthy (plan_data p) then Inl PlanNotLoaded
      else
        (case get_resource_changes p of
           Inl e \<Rightarrow> Inl e
         | Inr changes \<Rightarrow> Inr (length changes)))"

text \<open>
  A Python set holds one of several values that are equal, the first one added; of the
  values a JSON document gives, a boolean and a number are equal when the number is
  \<open>1\<close> for \<^verbatim>\<open>True\<close> or \<open>0\<close> for \<^verbatim>\<open>False\<close>.
\<close>

fun py_key :: "json \<Rightarrow> json" where
  "py_key (JBool b) = JNum (if b then 1 else 0)"
| "py_key v = v"

definition set_add :: "json list \<Rightarrow> json \<Rightarrow> json list" where
  "set_add elems x = (if py_key x \<in> py_key ` set elems then elems else elems @ [x])"

text \<open>
  \<^verbatim>\<open>list(set(change['type'] for change in ...))\<close>: the order of the list is not
  determined, so the result is the set of its elements; a type that is a list or a dict
  cannot enter a set.
\<close>

definition get_resource_types :: "PlanParser \<Rightarrow> error + json set" where
  "get_resource_types p =
     (if \<not> truthy (plan_data p) then Inl PlanNotLoaded
      else
        (case get_resource_changes p of
           Inl e \<Rightarrow> Inl e
         | Inr changes \<Rightarrow>
             (let types = map (\<lambda>c. dict_get c ''type'' JNull) changes
              in if list_all hashable types then Inr (set (foldl set_add [] types))
                 else Inl TypeError)))"

section \<open>The environment of a run\<close>

text \<open>
  What the code takes from outside the repository is a parameter of the model:
  \<^item> \<open>remote n f\<close> is the outcome of the \<open>n\<close>-th HTTP request of the run, sent with the
    filter string \<open>f\<close>: the parsed body of the reply, or the exception raised by
    \<^verbatim>\<open>session.get\<close>, \<^verbatim>\<open>raise_for_status\<close> or \<^verbatim>\<open>response.json\<close>;
  \<^item> \<open>clock n\<close> is the value of the \<open>n\<close>-th reading of \<^verbatim>\<open>datetime.now()\<close>, in
    microseconds;
  \<^item> \<open>py_str\<close> is \<^verbatim>\<open>str\<close> on a value that is not a string, \<open>str_lower\<close> and
    \<open>str_upper\<close> are \<^verbatim>\<open>str.lower\<close> and \<^verbatim>\<open>str.upper\<close>;
  \<^item> \<open>float_of_str\<close> and \<open>int_of_str\<close> are \<^verbatim>\<open>float\<close> and \<^verbatim>\<open>int\<close> on a string,
    \<open>None\<close> where they raise \<^verbatim>\<open>ValueError\<close>.
\<close>

record env =
  remote :: "nat \<Rightarrow> string \<Rightarrow> error + json"
  clock :: "nat \<Rightarrow> int"
  py_str :: "json \<Rightarrow> string"
  str_lower :: "string \<Rightarrow> string"
  str_upper :: "string \<Rightarrow> string"
  float_of_str :: "string \<Rightarrow> real option"
  int_of_str :: "string \<Rightarrow> int option"

text \<open>How an f-string renders a value.\<close>

fun fmt :: "env \<Rightarrow> json \<Rightarrow> string" where
  "fmt E (JStr s) = s"
| "fmt E v = py_str E v"

text \<open>\<^verbatim>\<open>float(x)\<close> and \<^verbatim>\<open>int(x)\<close>; \<^verbatim>\<open>int\<close> truncates towards zero.\<close>

fun py_float :: "env \<Rightarrow> json \<Rightarrow> error + real" where
  "py_float E (JNum r) = Inr r"
| "py_float E (JBool b) = Inr (if b then 1 else 0)"
| "py_float E (JStr s) = (case float_of_str E s of None \<Rightarrow> Inl ValueError | Some r \<Rightarrow> Inr r)"
| "py_float E _ = Inl TypeError"

fun py_int :: "env \<Rightarrow> json \<Rightarrow> error + int" where
  "py_int E (JNum r) = Inr (if 0 \<le> r then \<lfloor>r\<rfloor> else \<lceil>r\<rceil>)"
| "py_int E (JBool b) = Inr (if b then 1 else 0)"
| "py_int E (JStr s) = (case int_of_str E s of None \<Rightarrow> Inl ValueError | Some i \<Rightarrow> Inr i)"
| "py_int E _ = Inl TypeError"

text \<open>\<^verbatim>\<open>sep.join(parts)\<close>.\<close>

fun join :: "string \<Rightarrow> string list \<Rightarrow> string" where
  "join sep [] = []"
| "join sep [x] = x"
| "join sep (x # y # ys) = x @ sep @ join sep (y # ys)"

section \<open>Pricing client (azure\_pricing.py)\<close>

text \<open>
  The client's state: the two cache dictionaries, the filter strings of the HTTP requests
  sent so far, and the number of readings of the clock so far.
\<close>

record client =
  cache :: "string \<rightharpoonup> json"
  cache_timestamps :: "string \<rightharpoonup> int"
  requests :: "string list"
  ticks :: nat

definition new_client :: client where
  "new_client = \<lparr>cache = Map.empty, cache_timestamps = Map.empty, requests = [], ticks = 0\<rparr>"

text \<open>\<^verbatim>\<open>timedelta(hours=1)\<close> in microseconds.\<close>

definition CACHE_DURATION :: int where
  "CACHE_DURATION = 3600 * 1000000"

definition VM_PRICING :: "(string \<times> real) list" where
  "VM_PRICING =
     [(''Standard_D2s_v3'', 0.096),
      (''Standard_D4s_v3'', 0.192),
      (''Standard_D8s_v3'', 0.384)]"

definition STORAGE_PRICING :: "(string \<times> real) list" where
  "STORAGE_PRICING =
     [(''Standard_LRS'', 0.0184),
      (''Standard_GRS'', 0.0368),
      (''Premium_LRS'', 0.15),
      (''Premium_ZRS'', 0.175)]"

definition DISK_PRICING :: "(string \<times> (string \<times> real) list) list" where
  "DISK_PRICING =
     [(''Standard_LRS'',
         [(''P4'', 5.28), (''P6'', 10.21), (''P10'', 19.71), (''P15'', 38.44), (''P20'', 73.22)]),
      (''Premium_LRS'',
         [(''P4'', 15.84), (''P6'', 30.63), (''P10'', 59.13), (''P15'', 115.32),
          (''P20'', 219.66)])]"

text \<open>The quote built from a value of a static table.\<close>

definition static_quote :: "real \<Rightarrow> json" where
  "static_quote price =
     JObj [(''retailPrice'', JNum price),
           (''unitPrice'', JNum price),
           (''currencyCode'', JStr ''USD''),
           (''type'', JStr ''Consumption'')]"

text \<open>
  The cache key of a lookup: the keyword arguments sorted by name, each rendered
  \<^verbatim>\<open>name=value\<close>, joined by \<^verbatim>\<open>|\<close>. The names of keyword arguments are distinct,
  so that sorting the pairs is sorting by name.
\<close>

definition cache_key :: "env \<Rightarrow> dict \<Rightarrow> string" where
  "cache_key E filters =
     join ''|'' (map (\<lambda>kv. fst kv @ ''='' @ fmt E (snd kv)) (sort_key fst filters))"

text \<open>One filter of the request; \<^verbatim>\<open>v.lower()\<close> needs a string.\<close>

definition filter_part :: "env \<Rightarrow> string \<times> json \<Rightarrow> error + string list" where
  "filter_part E kv =
     (if fst kv = ''armRegionName'' then
        (case snd kv of
           JStr s \<Rightarrow> Inr [''armRegionName eq '' @ [CHR 0x27] @ str_lower E s @ [CHR 0x27]]
         | _ \<Rightarrow> Inl AttributeError)
      else if fst kv = ''serviceName'' then
        Inr [''serviceName eq '' @ [CHR 0x27] @ fmt E (snd kv) @ [CHR 0x27]]
      else if fst kv = ''skuName'' then
        Inr [''contains(skuName, '' @ [CHR 0x27] @ fmt E (snd kv) @ [CHR 0x27] @ '')'']
      else if fst kv = ''tierName'' then
        Inr [''contains(productName, '' @ [CHR 0x27] @ fmt E (snd kv) @ [CHR 0x27] @ '')'']
      else Inr [])"

fun filter_parts :: "env \<Rightarrow> dict \<Rightarrow> error + string list" where
  "filter_parts E [] = Inr []"
| "filter_parts E (kv # rest) =
     and_then (filter_part E kv) (\<lambda>part.
     and_then (filter_parts E rest) (\<lambda>parts. Inr (part @ parts)))"

text \<open>
  What \<^verbatim>\<open>_fetch_price\<close> takes from a reply: the first element of \<^verbatim>\<open>Items\<close>
  when \<^verbatim>\<open>data.get('Items')\<close> is truthy, and nothing otherwise.
\<close>

definition first_item :: "json \<Rightarrow> error + json option" where
  "first_item data =
     and_then (py_get data ''Items'' JNull) (\<lambda>items.
       if truthy items then and_then (py_index0 items) (\<lambda>price_data. Inr (Some price_data))
       else Inr None)"

text \<open>
  The part of \<^verbatim>\<open>_fetch_price\<close> after the cache check: the request is sent, and the
  first item of a reply that has items is stored under the key with the time of storing.
  A reply without items is returned as \<^verbatim>\<open>None\<close> and nothing is stored.
\<close>

definition fetch_remote :: "env \<Rightarrow> client \<Rightarrow> string \<Rightarrow> dict \<Rightarrow> (error + json) \<times> client" where
  "fetch_remote E c key filters =
     (case filter_parts E filters of
        Inl e \<Rightarrow> (Inl e, c)
      | Inr parts \<Rightarrow>
          (let filter_string = join '' and '' parts;
               c1 = c\<lparr>requests := requests c @ [filter_string]\<rparr>
           in case and_then (remote E (length (requests c)) filter_string) first_item of
                Inl e \<Rightarrow> (Inl e, c1)
              | Inr None \<Rightarrow> (Inr JNull, c1)
              | Inr (Some price_data) \<Rightarrow>
                  (Inr price_data,
                   c1\<lparr>cache := (cache c1)(key \<mapsto> price_data),
                      cache_timestamps := (cache_timestamps c1)(key \<mapsto> clock E (ticks c1)),
                      ticks := Suc (ticks c1)\<rparr>)))"

text \<open>
  \<^verbatim>\<open>_fetch_price(**filters)\<close>: \<open>filters\<close> are the keyword arguments in the order they
  were given. In \<^verbatim>\<open>datetime.now() - self._cache_timestamps[cache_key]\<close> the clock is read
  before the dictionary.
\<close>

definition fetch_price :: "env \<Rightarrow> client \<Rightarrow> dict \<Rightarrow> (error + json) \<times> client" where
  "fetch_price E c filters =
     (let key = cache_key E filters in
      case cache c key of
        None \<Rightarrow> fetch_remote E c key filters
      | Some cached \<Rightarrow>
          (let now = clock E (ticks c); c1 = c\<lparr>ticks := Suc (ticks c)\<rparr>
           in case cache_timestamps c key of
                None \<Rightarrow> (Inl KeyError, c1)
              | Some stamp \<Rightarrow>
                  if now - stamp < CACHE_DURATION then (Inr cached, c1)
                  else fetch_remote E c1 key filters))"

definition clear_cache :: "client \<Rightarrow> client" where
  "clear_cache c = c\<lparr>cache := Map.empty, cache_timestamps := Map.empty\<rparr>"

text \<open>
  The \<^verbatim>\<open>try\<close> block shared by the three lookups: an exception of \<open>fetch_price\<close> is
  logged, and a result that is not truthy is dropped; both give \<^verbatim>\<open>None\<close>.
\<close>

definition try_fetch :: "env \<Rightarrow> client \<Rightarrow> dict \<Rightarrow> (error + json) \<times> client" where
  "try_fetch E c filters =
     (case fetch_price E c filters of
        (Inl e, c') \<Rightarrow> (Inr JNull, c')
      | (Inr price_data, c') \<Rightarrow> (if truthy price_data then Inr price_data else Inr JNull, c'))"

text \<open>The truth value of the optional number a table lookup gives.\<close>

fun truthy_price :: "real option \<Rightarrow> bool" where
  "truthy_price None = False"
| "truthy_price (Some price) = (price \<noteq> 0)"

definition get_vm_price :: "env \<Rightarrow> client \<Rightarrow> json \<Rightarrow> json \<Rightarrow> (error + json) \<times> client" where
  "get_vm_price E c vm_size region =
     (case table_get VM_PRICING vm_size of
        Inl e \<Rightarrow> (Inl e, c)
      | Inr hourly_rate \<Rightarrow>
          if truthy_price hourly_rate then
            (Inr (static_quote (the hourly_rate)), c)
          else
            try_fetch E c
              [(''serviceName'', JStr ''Virtual Machines''),
               (''armRegionName'', region),
               (''skuName'', vm_size)])"

definition get_storage_price :: "env \<Rightarrow> client \<Rightarrow> json \<Rightarrow> json \<Rightarrow> (error + json) \<times> client" where
  "get_storage_price E c account_type region =
     (case table_get STORAGE_PRICING account_type of
        Inl e \<Rightarrow> (Inl e, c)
      | Inr price_per_gb \<Rightarrow>
          if truthy_price price_per_gb then
            (Inr (static_quote (the price_per_gb)), c)
          else
            try_fetch E c
              [(''serviceName'', JStr ''Storage''),
               (''armRegionName'', region),
               (''skuName'', account_type)])"

text \<open>The tier ladder of \<^verbatim>\<open>get_managed_disk_price\<close>.\<close>

definition disk_tier :: "int \<Rightarrow> string" where
  "disk_tier size_gb =
     (if size_gb \<le> 32 then ''P4''
      else if size_gb \<le> 64 then ''P6''
      else if size_gb \<le> 128 then ''P10''
      else if size_gb \<le> 256 then ''P15''
      else ''P20'')"

text \<open>\<^verbatim>\<open>self.DISK_PRICING.get(storage_type, {}).get(tier)\<close>.\<close>

definition disk_table_price :: "json \<Rightarrow> string \<Rightarrow> error + real option" where
  "disk_table_price storage_type tier =
     (case table_get DISK_PRICING storage_type of
        Inl e \<Rightarrow> Inl e
      | Inr None \<Rightarrow> Inr None
      | Inr (Some disk_prices) \<Rightarrow> Inr (map_of disk_prices tier))"

definition get_managed_disk_price ::
  "env \<Rightarrow> client \<Rightarrow> json \<Rightarrow> int \<Rightarrow> json \<Rightarrow> (error + json) \<times> client" where
  "get_managed_disk_price E c storage_type size_gb region =
     (let tier = disk_tier size_gb in
      case disk_table_price storage_type tier of
        Inl e \<Rightarrow> (Inl e, c)
      | Inr monthly_price \<Rightarrow>
          if truthy_price monthly_price then
            (Inr (static_quote (the monthly_price)), c)
          else
            try_fetch E c
              [(''serviceName'', JStr ''Managed Disks''),
               (''armRegionName'', region),
               (''skuName'', storage_type),
               (''tierName'', JStr tier)])"

section \<open>Resource handlers (resource\_handlers.py)\<close>

text \<open>
  A handler's \<^verbatim>\<open>calculate_cost\<close> returns a monthly cost, \<^verbatim>\<open>None\<close>, or raises; it
  may change the client's cache on the way. A resource configuration is the dict built by
  \<open>extract_resource_config\<close>.
\<close>

text \<open>\<^verbatim>\<open>ResourceHandler._get_location\<close>.\<close>

definition get_location :: "dict \<Rightarrow> error + json" where
  "get_location resource_config =
     and_then (py_get (dict_get resource_config ''raw_values'' (JObj [])) ''location'' JNull)
       (\<lambda>location.
          Inr (if \<not> truthy location then dict_get resource_config ''location'' JNull
               else location))"

text \<open>\<^verbatim>\<open>float(price_data.get('retailPrice', 0))\<close>.\<close>

definition quote_price :: "env \<Rightarrow> json \<Rightarrow> error + real" where
  "quote_price E price_data = and_then (py_get price_data ''retailPrice'' (JNum 0)) (py_float E)"

text \<open>\<^verbatim>\<open>except Exception: return None\<close> around the \<^verbatim>\<open>try\<close> block of a handler.\<close>

definition catch_none :: "(error + real option) \<times> client \<Rightarrow> (error + real option) \<times> client" where
  "catch_none r = (case r of (Inl e, c) \<Rightarrow> (Inr None, c) | (Inr v, c) \<Rightarrow> (Inr v, c))"

subsection \<open>Virtual machine\<close>

text \<open>\<^verbatim>\<open>raw_values.get('os_disk', [{}])[0].get('storage_account_type')\<close>.\<close>

definition os_disk_type :: "json \<Rightarrow> error + json" where
  "os_disk_type raw_values =
     and_then (py_get raw_values ''os_disk'' (JArr [JObj []])) (\<lambda>disks.
     and_then (py_index0 disks) (\<lambda>os_disk.
     py_get os_disk ''storage_account_type'' JNull))"

text \<open>The second half of the \<^verbatim>\<open>try\<close> block: the cost of the OS disk is added.\<close>

definition vm_add_os_disk ::
  "env \<Rightarrow> client \<Rightarrow> json \<Rightarrow> json \<Rightarrow> real \<Rightarrow> (error + real) \<times> client" where
  "vm_add_os_disk E c raw_values location monthly_cost =
     (case os_disk_type raw_values of
        Inl e \<Rightarrow> (Inl e, c)
      | Inr disk_type \<Rightarrow>
          if truthy disk_type then
            (case get_managed_disk_price E c disk_type 128 location of
               (Inl e, c') \<Rightarrow> (Inl e, c')
             | (Inr disk_price, c') \<Rightarrow>
                 if truthy disk_price then
                   (case quote_price E disk_price of
                      Inl e \<Rightarrow> (Inl e, c')
                    | Inr disk_cost \<Rightarrow> (Inr (monthly_cost + disk_cost), c'))
                 else (Inr monthly_cost, c'))
          else (Inr monthly_cost, c))"

text \<open>The \<^verbatim>\<open>try\<close> block of the virtual machine handler.\<close>

definition vm_try ::
  "env \<Rightarrow> client \<Rightarrow> json \<Rightarrow> json \<Rightarrow> json \<Rightarrow> (error + real option) \<times> client" where
  "vm_try E c raw_values vm_size location =
     (case get_vm_price E c vm_size location of
        (Inl e, c1) \<Rightarrow> (Inl e, c1)
      | (Inr price_data, c1) \<Rightarrow>
          if truthy price_data then
            (case quote_price E price_data of
               Inl e \<Rightarrow> (Inl e, c1)
             | Inr hourly_rate \<Rightarrow>
                 (case vm_add_os_disk E c1 raw_values location (hourly_rate * 730) of
                    (Inl e, c2) \<Rightarrow> (Inl e, c2)
                  | (Inr monthly_cost, c2) \<Rightarrow> (Inr (Some monthly_cost), c2)))
          else (Inr None, c1))"

text \<open>\<^verbatim>\<open>VirtualMachineHandler.calculate_cost\<close>.\<close>

definition vm_calculate_cost :: "env \<Rightarrow> client \<Rightarrow> dict \<Rightarrow> (error + real option) \<times> client" where
  "vm_calculate_cost E c resource_config =
     (let raw_values = dict_get resource_config ''raw_values'' (JObj []) in
      case py_get raw_values ''size'' JNull of
        Inl e \<Rightarrow> (Inl e, c)
      | Inr vm_size \<Rightarrow>
          (case get_location resource_config of
             Inl e \<Rightarrow> (Inl e, c)
           | Inr location \<Rightarrow>
               if \<not> (truthy vm_size \<and> truthy location) then (Inr None, c)
               else catch_none (vm_try E c raw_values vm_size location)))"

subsection \<open>Storage account\<close>

text \<open>The \<^verbatim>\<open>try\<close> block of the storage account handler.\<close>

definition storage_try ::
  "env \<Rightarrow> client \<Rightarrow> string \<Rightarrow> json \<Rightarrow> (error + real option) \<times> client" where
  "storage_try E c account_type location =
     (case get_storage_price E c (JStr account_type) location of
        (Inl e, c') \<Rightarrow> (Inl e, c')
      | (Inr price_data, c') \<Rightarrow>
          if \<not> truthy price_data then (Inr None, c')
          else
            (case quote_price E price_data of
               Inl e \<Rightarrow> (Inl e, c')
             | Inr price_per_gb \<Rightarrow> (Inr (Some (price_per_gb * 100)), c')))"

text \<open>\<^verbatim>\<open>StorageAccountHandler.calculate_cost\<close>.\<close>

definition storage_calculate_cost ::
  "env \<Rightarrow> client \<Rightarrow> dict \<Rightarrow> (error + real option) \<times> client" where
  "storage_calculate_cost E c resource_config =
     (case as_dict (dict_get resource_config ''raw_values'' (JObj [])) of
        Inl e \<Rightarrow> (Inl e, c)
      | Inr raw_values \<Rightarrow>
          (let account_tier = dict_get raw_values ''account_tier'' (JStr '''');
               replication_type = dict_get raw_values ''account_replication_type'' (JStr '''')
           in case get_location resource_config of
                Inl e \<Rightarrow> (Inl e, c)
              | Inr location \<Rightarrow>
                  if \<not> (truthy account_tier \<and> truthy replication_type \<and> truthy location)
                  then (Inr None, c)
                  else
                    catch_none
                      (storage_try E c (fmt E account_tier @ ''_'' @ fmt E replication_type)
                         location)))"

subsection \<open>Managed disk\<close>

text \<open>The \<^verbatim>\<open>try\<close> block of the managed disk handler.\<close>

definition disk_try ::
  "env \<Rightarrow> client \<Rightarrow> json \<Rightarrow> int \<Rightarrow> json \<Rightarrow> (error + real option) \<times> client" where
  "disk_try E c storage_type disk_size_gb location =
     (case get_managed_disk_price E c storage_type disk_size_gb location of
        (Inl e, c') \<Rightarrow> (Inl e, c')
      | (Inr price_data, c') \<Rightarrow>
          if \<not> truthy price_data then (Inr None, c')
          else
            (case quote_price E price_data of
               Inl e \<Rightarrow> (Inl e, c')
             | Inr monthly_cost \<Rightarrow> (Inr (Some monthly_cost), c')))"

text \<open>\<^verbatim>\<open>int(raw_values.get('disk_size_gb', 0))\<close> is outside the \<^verbatim>\<open>try\<close> block.\<close>

definition disk_calculate_cost :: "env \<Rightarrow> client \<Rightarrow> dict \<Rightarrow> (error + real option) \<times> client" where
  "disk_calculate_cost E c resource_config =
     (let raw_values = dict_get resource_config ''raw_values'' (JObj []) in
      case py_get raw_values ''storage_account_type'' JNull of
        Inl e \<Rightarrow> (Inl e, c)
      | Inr storage_type \<Rightarrow>
          (case and_then (py_get raw_values ''disk_size_gb'' (JNum 0)) (py_int E) of
             Inl e \<Rightarrow> (Inl e, c)
           | Inr disk_size_gb \<Rightarrow>
               (case get_location resource_config of
                  Inl e \<Rightarrow> (Inl e, c)
                | Inr location \<Rightarrow>
                    if \<not> (truthy storage_type \<and> truthy location \<and> disk_size_gb \<noteq> 0)
                    then (Inr None, c)
                    else catch_none (disk_try E c storage_type disk_size_gb location))))"

subsection \<open>App Service Plan\<close>

text \<open>
  The sku is \<^verbatim>\<open>sku_name\<close>, or else the \<^verbatim>\<open>size\<close> or the \<^verbatim>\<open>name\<close> of the
  \<^verbatim>\<open>sku\<close> block, which is a dict or a non-empty list whose first element is one.
\<close>

definition resolve_sku :: "dict \<Rightarrow> json" where
  "resolve_sku raw_values =
     (let sku = dict_get raw_values ''sku_name'' JNull in
      if truthy sku then sku
      else
        (let sku_info = dict_get raw_values ''sku'' JNull;
             sku_info1 = (case sku_info of JArr (x # xs) \<Rightarrow> x | _ \<Rightarrow> sku_info)
         in case sku_info1 of
              JObj d \<Rightarrow>
                (let s = dict_get d ''size'' JNull
                 in if truthy s then s else dict_get d ''name'' JNull)
            | _ \<Rightarrow> sku))"

definition sku_prices :: "(string \<times> real) list" where
  "sku_prices = [(''B1'', 54.75), (''B2'', 109.50), (''B3'', 218.99)]"

text \<open>The \<^verbatim>\<open>try\<close> block of the App Service Plan handler; \<^verbatim>\<open>sku.upper()\<close> needs a string.\<close>

definition plan_try :: "env \<Rightarrow> json \<Rightarrow> error + real option" where
  "plan_try E sku =
     (case sku of
        JStr s \<Rightarrow>
          (let monthly_cost = (case map_of sku_prices (str_upper E s) of None \<Rightarrow> 0 | Some v \<Rightarrow> v)
           in if monthly_cost \<noteq> 0 then Inr (Some monthly_cost) else Inr None)
      | _ \<Rightarrow> Inl AttributeError)"

text \<open>\<^verbatim>\<open>AppServicePlanHandler.calculate_cost\<close>.\<close>

definition plan_calculate_cost :: "env \<Rightarrow> client \<Rightarrow> dict \<Rightarrow> (error + real option) \<times> client" where
  "plan_calculate_cost E c resource_config =
     (case as_dict (dict_get resource_config ''raw_values'' (JObj [])) of
        Inl e \<Rightarrow> (Inl e, c)
      | Inr raw_values \<Rightarrow>
          (let sku = resolve_sku raw_values in
           case get_location resource_config of
             Inl e \<Rightarrow> (Inl e, c)
           | Inr location \<Rightarrow>
               if \<not> (truthy sku \<and> truthy location) then (Inr None, c)
               else catch_none (plan_try E sku, c)))"

subsection \<open>Registry\<close>

text \<open>The handler classes, the table \<^verbatim>\<open>RESOURCE_HANDLERS\<close> and \<^verbatim>\<open>get_handler\<close>.\<close>

datatype handler =
    VirtualMachineHandler
  | StorageAccountHandler
  | ManagedDiskHandler
  | NetworkInterfaceHandler
  | VirtualNetworkHandler
  | SubnetHandler
  | ResourceGroupHandler
  | LogicAppHandler
  | LogicAppActionHandler
  | LogicAppTriggerHandler
  | AppServicePlanHandler

definition RESOURCE_HANDLERS :: "(string \<times> handler) list" where
  "RESOURCE_HANDLERS =
     [(''azurerm_virtual_machine'', VirtualMachineHandler),
      (''azurerm_windows_virtual_machine'', VirtualMachineHandler),
      (''azurerm_linux_virtual_machine'', VirtualMachineHandler),
      (''azurerm_storage_account'', StorageAccountHandler),
      (''azurerm_managed_disk'', ManagedDiskHandler),
      (''azurerm_network_interface'', NetworkInterfaceHandler),
      (''azurerm_virtual_network'', VirtualNetworkHandler),
      (''azurerm_subnet'', SubnetHandler),
      (''azurerm_resource_group'', ResourceGroupHandler),
      (''azurerm_logic_app_workflow'', LogicAppHandler),
      (''azurerm_logic_app_action_custom'', LogicAppActionHandler),
      (''azurerm_logic_app_trigger_custom'', LogicAppTriggerHandler),
      (''azurerm_service_plan'', AppServicePlanHandler),
      (''azurerm_app_service_plan'', AppServicePlanHandler)]"

definition get_handler :: "json \<Rightarrow> error + handler option" where
  "get_handler resource_type = table_get RESOURCE_HANDLERS resource_type"

text \<open>\<^verbatim>\<open>handler.calculate_cost(resource)\<close> for each handler class; the handlers of the resources
  without a direct cost and of the Logic App workflow return a constant.\<close>

fun calculate_cost :: "handler \<Rightarrow> env \<Rightarrow> client \<Rightarrow> dict \<Rightarrow> (error + real option) \<times> client" where
  "calculate_cost VirtualMachineHandler E c cfg = vm_calculate_cost E c cfg"
| "calculate_cost StorageAccountHandler E c cfg = storage_calculate_cost E c cfg"
| "calculate_cost ManagedDiskHandler E c cfg = disk_calculate_cost E c cfg"
| "calculate_cost NetworkInterfaceHandler E c cfg = (Inr (Some 0), c)"
| "calculate_cost VirtualNetworkHandler E c cfg = (Inr (Some 0), c)"
| "calculate_cost SubnetHandler E c cfg = (Inr (Some 0), c)"
| "calculate_cost ResourceGroupHandler E c cfg = (Inr (Some 0), c)"
| "calculate_cost LogicAppHandler E c cfg = (Inr (Some (100000 * 0.000125)), c)"
| "calculate_cost LogicAppActionHandler E c cfg = (Inr (Some 0), c)"
| "calculate_cost LogicAppTriggerHandler E c cfg = (Inr (Some 0), c)"
| "calculate_cost AppServicePlanHandler E c cfg = plan_calculate_cost E c cfg"

section \<open>Cost calculator (calculator.py)\<close>

text \<open>The field \<^verbatim>\<open>type\<close> of \<^verbatim>\<open>ResourceCost\<close> is \<open>rtype\<close> here.\<close>

record ResourceCost =
  address :: json
  rtype :: json
  name :: json
  monthly_cost :: "real option"
  details :: dict

record CostBreakdown =
  resources :: "ResourceCost list"
  total_monthly_cost :: real
  unknown_costs :: "json list"

record CostCalculator =
  plan_parser :: PlanParser
  pricing_client :: client
  cost_threshold :: "real option"

definition new_calculator :: CostCalculator where
  "new_calculator =
     \<lparr>plan_parser = new_parser, pricing_client = new_client, cost_threshold = None\<rparr>"

definition set_cost_threshold :: "real \<Rightarrow> CostCalculator \<Rightarrow> CostCalculator" where
  "set_cost_threshold threshold calc = calc\<lparr>cost_threshold := Some threshold\<rparr>"

text \<open>\<^verbatim>\<open>_extract_cost_details\<close>: the entries that are \<^verbatim>\<open>None\<close> are left out.\<close>

definition extract_cost_details :: "dict \<Rightarrow> dict" where
  "extract_cost_details resource =
     filter (\<lambda>kv. snd kv \<noteq> JNull)
       [(''location'', dict_get resource ''location'' JNull),
        (''size'', dict_get resource ''size'' JNull),
        (''sku'', dict_get resource ''sku'' JNull),
        (''tier'', dict_get resource ''tier'' JNull)]"

text \<open>The two ways a resource leaves the loop of \<^verbatim>\<open>calculate_costs\<close>: its address is appended to the
  unknown costs, or its cost is added to the total and its record to the resources.\<close>

definition mark_unknown :: "dict \<Rightarrow> CostBreakdown \<Rightarrow> CostBreakdown" where
  "mark_unknown resource acc =
     acc\<lparr>unknown_costs :=
           unknown_costs acc @ [dict_get resource ''address'' (JStr ''Unknown resource'')]\<rparr>"

definition mark_known :: "dict \<Rightarrow> real \<Rightarrow> CostBreakdown \<Rightarrow> CostBreakdown" where
  "mark_known resource cost acc =
     acc\<lparr>total_monthly_cost := total_monthly_cost acc + cost,
         resources :=
           resources acc @
             [\<lparr>address = dict_get resource ''address'' (JStr ''''),
               rtype = dict_get resource ''type'' (JStr ''''),
               name = dict_get resource ''name'' (JStr ''''),
               monthly_cost = Some cost,
               details = extract_cost_details resource\<rparr>]\<rparr>"

text \<open>
  One turn of the loop of \<^verbatim>\<open>calculate_costs\<close>. The call of \<^verbatim>\<open>get_handler\<close> is
  outside the \<^verbatim>\<open>try\<close> block; an exception of the handler is caught.
\<close>

definition cost_step ::
  "env \<Rightarrow> client \<Rightarrow> CostBreakdown \<Rightarrow> dict \<Rightarrow> (error + CostBreakdown) \<times> client" where
  "cost_step E c acc resource =
     (case get_handler (dict_get resource ''type'' (JStr '''')) of
        Inl e \<Rightarrow> (Inl e, c)
      | Inr None \<Rightarrow> (Inr (mark_unknown resource acc), c)
      | Inr (Some h) \<Rightarrow>
          (case calculate_cost h E c resource of
             (Inl e, c') \<Rightarrow> (Inr (mark_unknown resource acc), c')
           | (Inr None, c') \<Rightarrow> (Inr (mark_unknown resource acc), c')
           | (Inr (Some cost), c') \<Rightarrow> (Inr (mark_known resource cost acc), c')))"

text \<open>The loop over the resource changes.\<close>

fun cost_loop ::
  "env \<Rightarrow> client \<Rightarrow> CostBreakdown \<Rightarrow> dict list \<Rightarrow> (error + CostBreakdown) \<times> client" where
  "cost_loop E c acc [] = (Inr acc, c)"
| "cost_loop E c acc (resource # rest) =
     (case cost_step E c acc resource of
        (Inl e, c') \<Rightarrow> (Inl e, c')
      | (Inr acc', c') \<Rightarrow> cost_loop E c' acc' rest)"

text \<open>
  \<^verbatim>\<open>calculate_costs\<close>: the plan is loaded (\<open>read_sig\<close> and \<open>read_plain\<close> are the two
  outcomes of reading the file, as for \<open>load_plan\<close>), the resource changes are extracted
  and priced one by one, starting from empty lists and a total of zero.
\<close>

definition calculate_costs ::
  "env \<Rightarrow> (error + json) \<Rightarrow> (error + json) \<Rightarrow> CostCalculator
     \<Rightarrow> (error + CostBreakdown) \<times> CostCalculator" where
  "calculate_costs E read_sig read_plain calc =
     (case load_plan read_sig read_plain (plan_parser calc) of
        Inl e \<Rightarrow> (Inl e, calc)
      | Inr p \<Rightarrow>
          (let calc1 = calc\<lparr>plan_parser := p\<rparr> in
           case get_resource_changes p of
             Inl e \<Rightarrow> (Inl e, calc1)
           | Inr resource_changes \<Rightarrow>
               (case cost_loop E (pricing_client calc1)
                       \<lparr>resources = [], total_monthly_cost = 0, unknown_costs = []\<rparr>
                       resource_changes of
                  (r, c') \<Rightarrow> (r, calc1\<lparr>pricing_client := c'\<rparr>))))"

text \<open>\<^verbatim>\<open>validate_cost_threshold\<close>.\<close>

definition validate_cost_threshold :: "CostCalculator \<Rightarrow> CostBreakdown \<Rightarrow> bool" where
  "validate_cost_threshold calc breakdown =
     (case cost_threshold calc of
        None \<Rightarrow> True
      | Some threshold \<Rightarrow> total_monthly_cost breakdown \<le> threshold)"

section \<open>Notions of the specification\<close>

text \<open>
  The action list of an entry of \<^verbatim>\<open>resource_changes\<close>, as Terraform writes it: a JSON
  array of verbs without repetition, so that the action set is exactly \<open>{create}\<close> when
  the array is \<^verbatim>\<open>["create"]\<close>.
\<close>

definition actions_of :: "json \<Rightarrow> json" where
  "actions_of change =
     (case change of
        JObj d \<Rightarrow> (case dict_get d ''change'' (JObj []) of JObj ch \<Rightarrow> dict_get ch ''actions'' JNull | _ \<Rightarrow> JNull)
      | _ \<Rightarrow> JNull)"

definition create_or_update :: "json \<Rightarrow> bool" where
  "create_or_update change =
     (actions_of change = JArr [JStr ''create''] \<or> actions_of change = JArr [JStr ''update''])"

text \<open>
  An entry of the plan document, as the specification describes it: an object whose
  \<^verbatim>\<open>change\<close>, when present, is an object, and whose \<^verbatim>\<open>change.after\<close> is an
  attribute map when the resource is created or updated (Terraform writes \<^verbatim>\<open>null\<close>
  for a resource that is destroyed).
\<close>

definition well_formed_change :: "json \<Rightarrow> bool" where
  "well_formed_change change =
     (case change of
        JObj d \<Rightarrow>
          (case dict_get d ''change'' (JObj []) of
             JObj ch \<Rightarrow>
               (if create_or_update change
                then (case dict_get ch ''after'' (JObj []) of JObj a \<Rightarrow> True | _ \<Rightarrow> False)
                else True)
           | _ \<Rightarrow> False)
      | _ \<Rightarrow> False)"

subsection \<open>Sample inputs\<close>

definition sample_changes :: "json list" where
  "sample_changes =
     [JObj [(''address'', JStr ''azurerm_linux_virtual_machine.test''),
            (''type'', JStr ''azurerm_linux_virtual_machine''),
            (''name'', JStr ''test''),
            (''change'', JObj [(''actions'', JArr [JStr ''create'']),
                              (''after'', JObj [(''location'', JStr ''eastus''),
                                               (''size'', JStr ''Standard_D2s_v3'')])])],
      JObj [(''address'', JStr ''azurerm_subnet.old''),
            (''type'', JStr ''azurerm_subnet''),
            (''name'', JStr ''old''),
            (''change'', JObj [(''actions'', JArr [JStr ''delete'']),
                              (''after'', JNull)])],
      JObj [(''address'', JStr ''azurerm_resource_group.rg''),
            (''type'', JStr ''azurerm_resource_group''),
            (''name'', JStr ''rg''),
            (''change'', JObj [(''actions'', JArr [JStr ''delete'', JStr ''create'']),
                              (''after'', JObj [(''location'', JStr ''eastus'')])])],
      JObj [(''address'', JStr ''azurerm_managed_disk.broken''),
            (''type'', JStr ''azurerm_managed_disk''),
            (''name'', JStr ''broken''),
            (''change'', JObj [(''actions'', JArr [JStr ''create'']),
                              (''after'', JObj [(''location'', JStr ''eastus''),
                                               (''storage_account_type'', JStr ''Standard_LRS''),
                                               (''disk_size_gb'', JNull)])])],
      JObj [(''address'', JStr ''azurerm_storage_account.test''),
            (''type'', JStr ''azurerm_storage_account''),
            (''name'', JStr ''test''),
            (''change'', JObj [(''actions'', JArr [JStr ''update'']),
                              (''after'', JObj [(''location'', JStr ''eastus''),
                                               (''account_tier'', JStr ''Standard''),
                                               (''account_replication_type'', JStr ''LRS'')])])],
      JObj [(''address'', JStr ''azurerm_kubernetes_cluster.k8s''),
            (''type'', JStr ''azurerm_kubernetes_cluster''),
            (''name'', JStr ''k8s''),
            (''change'', JObj [(''actions'', JArr [JStr ''create'']),
                              (''after'', JObj [(''location'', JStr ''eastus'')])])]]"

definition sample_plan :: dict where
  "sample_plan = [(''format_version'', JStr ''1.2''), (''resource_changes'', JArr sample_changes)]"

definition sample_remote :: "nat \<Rightarrow> string \<Rightarrow> error + json" where
  "sample_remote n f =
     (if is_substring ''Virtual Machines'' f then
        Inr (JObj [(''Items'', JArr [JObj [(''retailPrice'', JNum 0.1)]])])
      else if is_substring ''Managed Disks'' f then
        Inr (JObj [(''Items'', JArr [])])
      else
        Inr (JObj [(''Items'', JArr [JObj [(''retailPrice'', JNum 0.02)]])]))"

definition sample_env :: env where
  "sample_env =
     \<lparr>remote = sample_remote,
      clock = (\<lambda>n. int n),
      py_str = (\<lambda>v. ''''),
      str_lower = (\<lambda>s. s),
      str_upper = (\<lambda>s. s),
      float_of_str = (\<lambda>s. None),
      int_of_str = (\<lambda>s. None)\<rparr>"

definition vm_raw :: dict where
  "vm_raw = [(''location'', JStr ''eastus''), (''size'', JStr ''Standard_B2s'')]"

definition vm_disk_raw :: "string \<Rightarrow> dict" where
  "vm_disk_raw disk_type =
     [(''location'', JStr ''eastus''),
      (''size'', JStr ''Standard_B2s''),
      (''os_disk'', JArr [JObj [(''storage_account_type'', JStr disk_type)]])]"

definition storage_raw :: dict where
  "storage_raw =
     [(''location'', JStr ''eastus''),
      (''account_tier'', JStr ''Standard''),
      (''account_replication_type'', JStr ''ZRS'')]"

definition disk_raw :: dict where
  "disk_raw =
     [(''location'', JStr ''eastus''),
      (''storage_account_type'', JStr ''Standard_LRS''),
      (''disk_size_gb'', JNum 64)]"

text \<open>The configuration \<open>extract_resource_config\<close> builds for an entry with these values.\<close>

definition sample_config :: "string \<Rightarrow> string \<Rightarrow> dict \<Rightarrow> dict" where
  "sample_config resource_type addr after_values =
     [(''type'', JStr resource_type),
      (''name'', JStr ''test''),
      (''address'', JStr addr),
      (''location'', dict_get after_values ''location'' JNull),
      (''sku'', dict_get after_values ''sku'' JNull),
      (''size'', dict_get after_values ''size'' JNull),
      (''tier'', dict_get after_values ''tier'' JNull),
      (''capacity'', dict_get after_values ''capacity'' JNull),
      (''account_type'', dict_get after_values ''account_type'' JNull),
      (''account_replication_type'', dict_get after_values ''account_replication_type'' JNull),
      (''raw_values'', JObj after_values)]"

definition vm_filters :: dict where
  "vm_filters =
     [(''serviceName'', JStr ''Virtual Machines''),
      (''armRegionName'', JStr ''eastus''),
      (''skuName'', JStr ''Standard_B2s'')]"

text \<open>The same keyword arguments, given in another order.\<close>

definition vm_filters_reordered :: dict where
  "vm_filters_reordered =
     [(''skuName'', JStr ''Standard_B2s''),
      (''serviceName'', JStr ''Virtual Machines''),
      (''armRegionName'', JStr ''eastus'')]"

definition disk_filters :: dict where
  "disk_filters =
     [(''serviceName'', JStr ''Managed Disks''),
      (''armRegionName'', JStr ''eastus''),
      (''skuName'', JStr ''UltraSSD_LRS''),
      (''tierName'', JStr ''P10'')]"

subsection \<open>The breakdown\<close>

text \<open>The monthly cost of an entry of the resources list, and the address of a configuration.\<close>

definition known_cost :: "ResourceCost \<Rightarrow> real" where
  "known_cost r = (case monthly_cost r of None \<Rightarrow> 0 | Some cost \<Rightarrow> cost)"

definition config_address :: "dict \<Rightarrow> json" where
  "config_address resource = dict_get resource ''address'' JNull"

text \<open>
  The elements of a list at the positions marked \<open>True\<close>, and at the positions marked
  \<open>False\<close>: the two lists split the list, each element going to exactly one of them.
\<close>

definition marked :: "bool list \<Rightarrow> 'a list \<Rightarrow> 'a list" where
  "marked flags xs = map fst (filter snd (zip xs flags))"

definition unmarked :: "bool list \<Rightarrow> 'a list \<Rightarrow> 'a list" where
  "unmarked flags xs = map fst (filter (\<lambda>p. \<not> snd p) (zip xs flags))"

text \<open>The resource type of a configuration can be looked up in the registry.\<close>

definition type_hashable :: "dict \<Rightarrow> bool" where
  "type_hashable resource = hashable (dict_get resource ''type'' (JStr ''''))"

subsection \<open>A failing pricing service\<close>

text \<open>An environment in which every request to the pricing service fails.\<close>

definition failing_env :: env where
  "failing_env = sample_env\<lparr>remote := (\<lambda>n f. Inl RequestError)\<rparr>"

subsection \<open>A clock that advances by one hour at each reading\<close>

definition late_env :: env where
  "late_env = sample_env\<lparr>clock := (\<lambda>n. int n * CACHE_DURATION)\<rparr>"

subsection \<open>Sequences of lookups\<close>

text \<open>
  The client after a sequence of lookups, whatever each of them returns. The three
  public lookups change the client only through \<open>fetch_price\<close>.
\<close>

fun lookups :: "env \<Rightarrow> client \<Rightarrow> dict list \<Rightarrow> client" where
  "lookups E c [] = c"
| "lookups E c (filters # rest) = lookups E (snd (fetch_price E c filters)) rest"

definition storage_filters :: dict where
  "storage_filters =
     [(''serviceName'', JStr ''Storage''),
      (''armRegionName'', JStr ''eastus''),
      (''skuName'', JStr ''Standard_ZRS'')]"

subsection \<open>Known and unknown costs\<close>

text \<open>
  The cost of a resource as the specification has it: the cost its rule returns, a cost
  of zero included; no cost when the type has no rule, when the rule returns none, or
  when it raises. \<open>price_list\<close> gives the costs of a list of resources priced in order, each
  lookup starting from the cache the one before left.
\<close>

definition price_of :: "env \<Rightarrow> client \<Rightarrow> dict \<Rightarrow> real option \<times> client" where
  "price_of E c resource =
     (case get_handler (dict_get resource ''type'' (JStr [])) of
        Inr (Some h) \<Rightarrow>
          (case calculate_cost h E c resource of
             (Inr cost, c') \<Rightarrow> (cost, c')
           | (Inl e, c') \<Rightarrow> (None, c'))
      | _ \<Rightarrow> (None, c))"

fun price_list :: "env \<Rightarrow> client \<Rightarrow> dict list \<Rightarrow> real option list" where
  "price_list E c [] = []"
| "price_list E c (resource # rest) =
     fst (price_of E c resource) # price_list E (snd (price_of E c resource)) rest"

text \<open>The type of an entry of the plan can be looked up in the registry.\<close>

definition entry_type_hashable :: "json \<Rightarrow> bool" where
  "entry_type_hashable change =
     (case change of JObj c \<Rightarrow> hashable (dict_get c ''type'' (JStr [])) | _ \<Rightarrow> False)"

subsection \<open>More sample plans\<close>

definition vnet_change :: json where
  "vnet_change =
     JObj [(''address'', JStr ''azurerm_virtual_network.vnet''),
           (''type'', JStr ''azurerm_virtual_network''),
           (''name'', JStr ''vnet''),
           (''change'', JObj [(''actions'', JArr [JStr ''create'']),
                             (''after'', JObj [(''location'', JStr ''eastus'')])])]"

text \<open>The sample plan with a virtual network, which has a cost of zero, added.\<close>

definition priced_plan :: dict where
  "priced_plan = [(''resource_changes'', JArr (sample_changes @ [vnet_change]))]"

text \<open>A plan whose resources are all without a cost: a disk without a size and a cluster.\<close>

definition unknown_plan :: dict where
  "unknown_plan = [(''resource_changes'', JArr [sample_changes ! 3, sample_changes ! 5])]"

text \<open>A plan whose first entry has a list as its type, followed by the virtual network.\<close>

definition list_typed_plan :: dict where
  "list_typed_plan =
     [(''resource_changes'',
       JArr [JObj [(''address'', JStr ''azurerm_subnet.odd''),
                   (''type'', JArr [JStr ''azurerm_subnet'']),
                   (''name'', JStr ''odd''),
                   (''change'', JObj [(''actions'', JArr [JStr ''create'']),
                                     (''after'', JObj [(''location'', JStr ''eastus'')])])],
             vnet_change])]"

text \<open>A plan whose first entry is created with \<^verbatim>\<open>null\<close> as its planned state.\<close>

definition null_after_plan :: dict where
  "null_after_plan =
     [(''resource_changes'',
       JArr [JObj [(''address'', JStr ''azurerm_subnet.odd''),
                   (''type'', JStr ''azurerm_subnet''),
                   (''name'', JStr ''odd''),
                   (''change'', JObj [(''actions'', JArr [JStr ''create'']),
                                     (''after'', JNull)])],
             vnet_change])]"

section \<open>Properties of the plan parser\<close>

lemma wanted_actions_wf:
  "well_formed_change ch \<Longrightarrow> wanted_actions ch = Inr (create_or_update ch)"
  by (auto simp: well_formed_change_def wanted_actions_def create_or_update_def actions_of_def
      split: json.splits)

lemma extract_wf:
  "well_formed_change ch \<Longrightarrow> create_or_update ch \<Longrightarrow> \<exists>cfg. extract_resource_config ch = Inr cfg"
  by (auto simp: well_formed_change_def extract_resource_config_def and_then_def
      split: json.splits)

lemma collect_changes_wf:
  "\<forall>ch\<in>set chs. well_formed_change ch \<Longrightarrow>
   \<exists>cfgs. collect_changes acc chs = Inr (acc @ cfgs) \<and>
     map Inr cfgs = map extract_resource_config (filter create_or_update chs)"
proof (induction chs arbitrary: acc)
  case Nil
  then show ?case by simp
next
  case (Cons ch chs)
  then have wf: "well_formed_change ch" and rest: "\<forall>x\<in>set chs. well_formed_change x"
    by simp_all
  show ?case
  proof (cases "create_or_update ch")
    case True
    from extract_wf [OF wf True] obtain cfg where cfg: "extract_resource_config ch = Inr cfg" ..
    from Cons.IH [OF rest, of "acc @ [cfg]"] obtain cfgs where
      "collect_changes (acc @ [cfg]) chs = Inr ((acc @ [cfg]) @ cfgs)"
      "map Inr cfgs = map extract_resource_config (filter create_or_update chs)" by blast
    then show ?thesis
      using True cfg wanted_actions_wf [OF wf]
      by (intro exI [of _ "cfg # cfgs"]) simp
  next
    case False
    from Cons.IH [OF rest, of acc] obtain cfgs where
      "collect_changes acc chs = Inr (acc @ cfgs)"
      "map Inr cfgs = map extract_resource_config (filter create_or_update chs)" by blast
    then show ?thesis
      using False wanted_actions_wf [OF wf]
      by (intro exI [of _ cfgs]) simp
  qed
qed

text \<open>
  An action list without repetition stands for the set \<open>{a}\<close> exactly when it is the
  list \<open>[a]\<close>, which is what the test of \<open>get_resource_changes\<close> compares with.
\<close>

lemma single_action_list: "distinct xs \<Longrightarrow> (set xs = {a}) = (xs = [a])"
proof
  assume d: "distinct xs" and s: "set xs = {a}"
  from d have "length xs = card (set xs)" by (simp add: distinct_card)
  with s have "length xs = 1" by simp
  then obtain x where "xs = [x]" by (cases xs) auto
  with s show "xs = [a]" by simp
qed simp

text \<open>A document without \<^verbatim>\<open>resource_changes\<close>, other than \<^verbatim>\<open>{}\<close>, has no changes.\<close>

lemma get_resource_changes_no_key:
  assumes "plan_data p = JObj d" and "d \<noteq> []" and "map_of d ''resource_changes'' = None"
  shows "get_resource_changes p = Inr []" and "get_resource_count p = Inr 0"
  using assms by (simp_all add: get_resource_changes_def get_resource_count_def)

text \<open>
  C2. For a plan document with a \<^verbatim>\<open>resource_changes\<close> array of well-formed entries,
  \<open>get_resource_changes\<close> returns, in the order of the array, the configurations
  extracted from exactly the entries whose action list is \<^verbatim>\<open>["create"]\<close> or
  \<^verbatim>\<open>["update"]\<close>; every other entry is left out, and \<open>get_resource_count\<close> is the
  number of the create-only and update-only entries.
\<close>

theorem get_resource_changes_filter:
  assumes "plan_data p = JObj d"
    and "map_of d ''resource_changes'' = Some (JArr changes)"
    and "\<forall>ch\<in>set changes. well_formed_change ch"
  shows "\<exists>cfgs. get_resource_changes p = Inr cfgs \<and>
           map Inr cfgs = map extract_resource_config (filter create_or_update changes) \<and>
           length cfgs = length (filter create_or_update changes) \<and>
           get_resource_count p = Inr (length (filter create_or_update changes))"
proof -
  from assms(2) have ne: "d \<noteq> []" by auto
  from collect_changes_wf [OF assms(3), of "[]"] obtain cfgs where
    c: "collect_changes [] changes = Inr cfgs"
    and m: "map Inr cfgs = map extract_resource_config (filter create_or_update changes)"
    by auto
  from m have "length (map Inr cfgs :: (error + dict) list) = length (map extract_resource_config (filter create_or_update changes))"
    by simp
  then have l: "length cfgs = length (filter create_or_update changes)" by simp
  have g: "get_resource_changes p = Inr cfgs"
    using assms(1,2) ne c by (simp add: get_resource_changes_def)
  show ?thesis using g m l assms(1) ne by (auto simp: get_resource_count_def)
qed


theorem get_resource_changes_filter_witness:
  "plan_data \<lparr>plan_data = JObj sample_plan\<rparr> = JObj sample_plan \<and>
   map_of sample_plan ''resource_changes'' = Some (JArr sample_changes) \<and>
   list_all well_formed_change sample_changes \<and>
   get_resource_count \<lparr>plan_data = JObj sample_plan\<rparr> = Inr 4"
proof -
  have h1: "plan_data \<lparr>plan_data = JObj sample_plan\<rparr> = JObj sample_plan" by simp
  have h2: "map_of sample_plan ''resource_changes'' = Some (JArr sample_changes)"
    by (simp add: sample_plan_def)
  have h3: "\<forall>ch\<in>set sample_changes. well_formed_change ch"
    by (simp add: sample_changes_def well_formed_change_def create_or_update_def
        actions_of_def dict_get_def)
  have n: "length (filter create_or_update sample_changes) = 4"
    by (simp add: sample_changes_def create_or_update_def actions_of_def dict_get_def)
  from get_resource_changes_filter [OF h1 h2 h3] n h1 h2 h3 show ?thesis
    by (auto simp: list_all_iff)
qed

section \<open>Properties of the cost calculator\<close>

text \<open>
  C4. \<open>validate_cost_threshold\<close> holds exactly when no threshold is set or the total
  is at most the threshold; the list of unknown costs plays no part.
\<close>

theorem validate_cost_threshold_iff:
  "validate_cost_threshold calc b =
     (cost_threshold calc = None \<or>
      (\<exists>threshold. cost_threshold calc = Some threshold \<and> total_monthly_cost b \<le> threshold))
   \<and> validate_cost_threshold calc (b\<lparr>unknown_costs := u\<rparr>) = validate_cost_threshold calc b
   \<and> validate_cost_threshold (set_cost_threshold t calc) b = (total_monthly_cost b \<le> t)
   \<and> validate_cost_threshold new_calculator b"
  by (simp add: validate_cost_threshold_def set_cost_threshold_def new_calculator_def
      split: option.splits)


section \<open>Queries before and after loading\<close>

text \<open>
  The three queries raise \<open>PlanNotLoaded\<close> exactly when the stored plan data is not
  truthy: before \<open>load_plan\<close>, when it is \<^verbatim>\<open>None\<close>, and never for a document that is
  a non-empty object.
\<close>

lemma not_loaded: "get_resource_changes new_parser = Inl PlanNotLoaded \<and>
   get_resource_count new_parser = Inl PlanNotLoaded \<and>
   get_resource_types new_parser = Inl PlanNotLoaded"
  by (simp add: get_resource_changes_def get_resource_count_def get_resource_types_def new_parser_def)

lemma and_then_not_loaded:
  "m \<noteq> Inl PlanNotLoaded \<Longrightarrow> (\<And>v. f v \<noteq> Inl PlanNotLoaded) \<Longrightarrow> and_then m f \<noteq> Inl PlanNotLoaded"
  by (auto simp: and_then_def split: sum.splits)

lemma as_dict_not_loaded: "as_dict v \<noteq> Inl PlanNotLoaded"
  by (cases v) auto

lemma py_get_not_loaded: "py_get v k d \<noteq> Inl PlanNotLoaded"
  by (cases v) auto

lemma py_iter_not_loaded: "py_iter v \<noteq> Inl PlanNotLoaded"
  by (cases v) auto

lemma py_getitem_not_loaded: "py_getitem v k \<noteq> Inl PlanNotLoaded"
  by (cases v) (auto split: option.splits)

lemma py_contains_not_loaded: "py_contains v k \<noteq> Inl PlanNotLoaded"
  by (cases v) auto

lemma wanted_actions_not_loaded: "wanted_actions ch \<noteq> Inl PlanNotLoaded"
  using py_get_not_loaded by (auto simp: wanted_actions_def split: sum.splits)

lemma extract_not_loaded: "extract_resource_config ch \<noteq> Inl PlanNotLoaded"
  unfolding extract_resource_config_def
  by (intro and_then_not_loaded as_dict_not_loaded) simp

lemma collect_not_loaded: "collect_changes acc chs \<noteq> Inl PlanNotLoaded"
proof (induction chs arbitrary: acc)
  case Nil
  show ?case by simp
next
  case (Cons ch chs)
  show ?case
    using wanted_actions_not_loaded [of ch] extract_not_loaded [of ch] Cons.IH
    by (auto split: sum.splits bool.splits)
qed

lemma loaded_changes:
  "truthy (plan_data p) \<Longrightarrow> get_resource_changes p \<noteq> Inl PlanNotLoaded"
  using collect_not_loaded py_iter_not_loaded py_getitem_not_loaded py_contains_not_loaded
  by (auto simp: get_resource_changes_def split: sum.splits bool.splits)

lemma loaded_queries:
  "truthy (plan_data p) \<Longrightarrow>
     get_resource_changes p \<noteq> Inl PlanNotLoaded \<and>
     get_resource_count p \<noteq> Inl PlanNotLoaded \<and>
     get_resource_types p \<noteq> Inl PlanNotLoaded"
  using loaded_changes [of p]
  by (auto simp: get_resource_count_def get_resource_types_def Let_def split: sum.splits)

lemma queries_not_loaded_iff:
  "(get_resource_changes p = Inl PlanNotLoaded) = (\<not> truthy (plan_data p))"
  "(get_resource_count p = Inl PlanNotLoaded) = (\<not> truthy (plan_data p))"
  "(get_resource_types p = Inl PlanNotLoaded) = (\<not> truthy (plan_data p))"
  using loaded_queries [of p]
  by (auto simp: get_resource_changes_def get_resource_count_def get_resource_types_def)

text \<open>
  C9. Each of \<open>get_resource_changes\<close>, \<open>get_resource_count\<close> and
  \<open>get_resource_types\<close> is to raise \<open>PlanNotLoaded\<close> if and only if \<open>load_plan\<close> has
  not succeeded. The guard \<^verbatim>\<open>if not self.plan_data\<close> tests the truth value of the
  document and not whether it is \<^verbatim>\<open>None\<close>: after the successful load of the document
  \<^verbatim>\<open>{}\<close>, which has no \<^verbatim>\<open>resource_changes\<close>, all three queries still raise
  \<open>PlanNotLoaded\<close>.
\<close>

theorem empty_plan_reported_not_loaded:
  "load_plan (Inr (JObj [])) (Inr (JObj [])) new_parser = Inr \<lparr>plan_data = JObj []\<rparr> \<and>
   get_resource_changes \<lparr>plan_data = JObj []\<rparr> = Inl PlanNotLoaded \<and>
   get_resource_count \<lparr>plan_data = JObj []\<rparr> = Inl PlanNotLoaded \<and>
   get_resource_types \<lparr>plan_data = JObj []\<rparr> = Inl PlanNotLoaded"
  by (simp add: load_plan_def new_parser_def get_resource_changes_def get_resource_count_def
      get_resource_types_def)

section \<open>Properties of the resource handlers\<close>

subsection \<open>Sample configurations\<close>

lemma sample_location:
  "get_location (sample_config t a ((''location'', JStr ''eastus'') # rest)) = Inr (JStr ''eastus'')"
  by (simp add: get_location_def sample_config_def dict_get_def and_then_def)

lemma sample_raw_values:
  "dict_get (sample_config t a raw) ''raw_values'' (JObj []) = JObj raw"
  by (simp add: sample_config_def dict_get_def)

subsection \<open>Managed disk\<close>

lemma disk_tier_cases:
  "disk_tier s = ''P4'' \<or> disk_tier s = ''P6'' \<or> disk_tier s = ''P10'' \<or>
   disk_tier s = ''P15'' \<or> disk_tier s = ''P20''"
  by (simp add: disk_tier_def)

lemma disk_table_static:
  assumes "map_of DISK_PRICING st = Some prices"
  shows "disk_table_price (JStr st) tier = Inr (map_of prices tier)"
  using assms by (simp add: disk_table_price_def)

lemma disk_prices_complete:
  assumes "map_of DISK_PRICING st = Some prices"
  shows "truthy_price (map_of prices (disk_tier s))"
proof -
  from assms have "st = ''Standard_LRS'' \<or> st = ''Premium_LRS''"
    by (auto simp: DISK_PRICING_def split: if_splits)
  then show ?thesis
    using assms disk_tier_cases [of s] by (auto simp: DISK_PRICING_def)
qed

lemma get_managed_disk_price_static:
  assumes "map_of DISK_PRICING st = Some prices"
  shows "\<exists>price. map_of prices (disk_tier s) = Some price \<and>
           get_managed_disk_price E c (JStr st) s region = (Inr (static_quote price), c)"
  using disk_table_static [OF assms, of "disk_tier s"] disk_prices_complete [OF assms, of s]
  by (cases "map_of prices (disk_tier s)") (auto simp: get_managed_disk_price_def Let_def)

lemma quote_price_static [simp]: "quote_price E (static_quote p) = Inr p"
  by (simp add: quote_price_def static_quote_def and_then_def dict_get_def)

lemma truthy_static [simp]: "truthy (static_quote p)"
  by (simp add: static_quote_def)

lemma disk_calculate_cost_priced:
  assumes "dict_get cfg ''raw_values'' (JObj []) = JObj raw"
    and "dict_get raw ''storage_account_type'' JNull = storage_type"
    and "dict_get raw ''disk_size_gb'' (JNum 0) = JNum (real_of_int s)"
    and "get_location cfg = Inr location"
    and "truthy storage_type" and "truthy location" and "s \<noteq> 0"
    and "get_managed_disk_price E c storage_type s location = (Inr q, c')"
    and "truthy q" and "quote_price E q = Inr p"
  shows "disk_calculate_cost E c cfg = (Inr (Some p), c')"
  using assms
  by (simp add: disk_calculate_cost_def and_then_def disk_try_def catch_none_def)

text \<open>
  C7. For a disk size \<open>s > 0\<close> the lookup takes the tier P4 if \<open>s \<le> 32\<close>, P6 if
  \<open>s \<le> 64\<close>, P10 if \<open>s \<le> 128\<close>, P15 if \<open>s \<le> 256\<close> and P20 otherwise, and the
  managed disk handler returns the price of the quote as the monthly cost, unscaled: for
  a storage type of the static table this is the table's value for the tier.
\<close>

theorem managed_disk_tier_and_cost:
  assumes "0 < s"
    and "dict_get cfg ''raw_values'' (JObj []) = JObj raw"
    and "dict_get raw ''storage_account_type'' JNull = storage_type"
    and "dict_get raw ''disk_size_gb'' (JNum 0) = JNum (real_of_int s)"
    and "get_location cfg = Inr location"
    and "truthy storage_type" and "truthy location"
  shows "(s \<le> 32 \<longrightarrow> disk_tier s = ''P4'') \<and>
         (32 < s \<and> s \<le> 64 \<longrightarrow> disk_tier s = ''P6'') \<and>
         (64 < s \<and> s \<le> 128 \<longrightarrow> disk_tier s = ''P10'') \<and>
         (128 < s \<and> s \<le> 256 \<longrightarrow> disk_tier s = ''P15'') \<and>
         (256 < s \<longrightarrow> disk_tier s = ''P20'') \<and>
         (\<forall>st prices. storage_type = JStr st \<and> map_of DISK_PRICING st = Some prices \<longrightarrow>
            (\<exists>price. map_of prices (disk_tier s) = Some price \<and>
               disk_calculate_cost E c cfg = (Inr (Some price), c))) \<and>
         (\<forall>q c' p. get_managed_disk_price E c storage_type s location = (Inr q, c') \<and>
              truthy q \<and> quote_price E q = Inr p \<longrightarrow>
            disk_calculate_cost E c cfg = (Inr (Some p), c'))"
proof -
  have ladder: "(s \<le> 32 \<longrightarrow> disk_tier s = ''P4'') \<and>
         (32 < s \<and> s \<le> 64 \<longrightarrow> disk_tier s = ''P6'') \<and>
         (64 < s \<and> s \<le> 128 \<longrightarrow> disk_tier s = ''P10'') \<and>
         (128 < s \<and> s \<le> 256 \<longrightarrow> disk_tier s = ''P15'') \<and>
         (256 < s \<longrightarrow> disk_tier s = ''P20'')"
    by (simp add: disk_tier_def)
  from assms(1) have nz: "s \<noteq> 0" by simp
  have general: "disk_calculate_cost E c cfg = (Inr (Some p), c')"
    if "get_managed_disk_price E c storage_type s location = (Inr q, c')"
      and "truthy q" and "quote_price E q = Inr p" for q c' p
    using disk_calculate_cost_priced [OF assms(2-7) nz that] .
  have static: "\<exists>price. map_of prices (disk_tier s) = Some price \<and>
               disk_calculate_cost E c cfg = (Inr (Some price), c)"
    if "storage_type = JStr st" and "map_of DISK_PRICING st = Some prices" for st prices
  proof -
    from get_managed_disk_price_static [OF that(2), of s E c location] obtain price where
      p: "map_of prices (disk_tier s) = Some price"
      and g: "get_managed_disk_price E c (JStr st) s location = (Inr (static_quote price), c)"
      by blast
    from general [of "static_quote price" c price] g that(1)
    have "disk_calculate_cost E c cfg = (Inr (Some price), c)" by simp
    with p show ?thesis by blast
  qed
  from ladder general static show ?thesis by blast
qed

theorem managed_disk_tier_and_cost_witness:
  "disk_tier 64 = ''P6'' \<and>
   disk_calculate_cost sample_env new_client
     (sample_config ''azurerm_managed_disk'' ''azurerm_managed_disk.a'' disk_raw)
     = (Inr (Some 10.21), new_client)"
proof -
  have s: "(0::int) < 64" by simp
  have a: "dict_get disk_raw ''storage_account_type'' JNull = JStr ''Standard_LRS''"
    and b: "dict_get disk_raw ''disk_size_gb'' (JNum 0) = JNum (real_of_int 64)"
    by (simp_all add: disk_raw_def dict_get_def)
  have l: "get_location (sample_config ''azurerm_managed_disk'' ''azurerm_managed_disk.a''
       disk_raw) = Inr (JStr ''eastus'')"
    unfolding disk_raw_def by (rule sample_location)
  have t: "truthy (JStr ''Standard_LRS'')" "truthy (JStr ''eastus'')" by simp_all
  have tab: "map_of DISK_PRICING ''Standard_LRS'' =
      Some [(''P4'', 5.28), (''P6'', 10.21), (''P10'', 19.71), (''P15'', 38.44), (''P20'', 73.22)]"
    by (simp add: DISK_PRICING_def)
  from managed_disk_tier_and_cost [OF s sample_raw_values a b l t, of sample_env new_client] tab
  show ?thesis by fastforce
qed

subsection \<open>Virtual machine\<close>

lemma vm_calculate_cost_unfold:
  assumes "dict_get cfg ''raw_values'' (JObj []) = JObj raw"
    and "dict_get raw ''size'' JNull = vm_size"
    and "get_location cfg = Inr location"
    and "truthy vm_size" and "truthy location"
  shows "vm_calculate_cost E c cfg = catch_none (vm_try E c (JObj raw) vm_size location)"
  using assms by (simp add: vm_calculate_cost_def)

lemma sample_vm_price:
  "fst (get_vm_price sample_env new_client (JStr ''Standard_B2s'') (JStr ''eastus'')) =
     Inr (JObj [(''retailPrice'', JNum 0.1)])"
  by code_simp


lemma sample_vm_unpriced:
  "fst (get_vm_price failing_env new_client (JStr ''Standard_B2s'') (JStr ''eastus'')) = Inr JNull"
  by code_simp


text \<open>
  The sizes of the static table never reach the pricing service: \<^verbatim>\<open>Standard_D2s_v3\<close>
  is priced at 0.096 per hour, whatever the service would answer.
\<close>

lemma vm_static_example:
  "vm_calculate_cost E c
     (sample_config ''azurerm_linux_virtual_machine'' ''azurerm_linux_virtual_machine.test''
        [(''location'', JStr ''eastus''), (''size'', JStr ''Standard_D2s_v3'')])
   = (Inr (Some 70.08), c)"
  by (simp add: vm_calculate_cost_def sample_config_def dict_get_def get_location_def
      and_then_def vm_try_def get_vm_price_def VM_PRICING_def vm_add_os_disk_def
      os_disk_type_def catch_none_def)

lemma sample_disk_price_absent:
  "fst (get_managed_disk_price sample_env
          (snd (get_vm_price sample_env new_client (JStr ''Standard_B2s'') (JStr ''eastus'')))
          (JStr ''UltraSSD_LRS'') 128 (JStr ''eastus'')) = Inr JNull"
  by code_simp

text \<open>
  C10. When the base price of a virtual machine resolves to the hourly rate \<open>h\<close>, a disk
  storage type is present and the disk lookup returns no quote, the handler still
  returns \<open>h * 730\<close>: the disk is left out of the cost.
\<close>

theorem vm_disk_price_absent:
  assumes "dict_get cfg ''raw_values'' (JObj []) = JObj raw"
    and "dict_get raw ''size'' JNull = vm_size"
    and "get_location cfg = Inr location"
    and "truthy vm_size" and "truthy location"
    and "get_vm_price E c vm_size location = (Inr q, c1)" and "truthy q"
    and "quote_price E q = Inr h"
    and "os_disk_type (JObj raw) = Inr dt" and "truthy dt"
    and "get_managed_disk_price E c1 dt 128 location = (Inr dq, c2)" and "\<not> truthy dq"
  shows "vm_calculate_cost E c cfg = (Inr (Some (h * 730)), c2)"
  using assms(6-12)
  by (simp add: vm_calculate_cost_unfold [OF assms(1-5)] vm_try_def vm_add_os_disk_def
      catch_none_def)

theorem vm_disk_price_absent_witness:
  "fst (vm_calculate_cost sample_env new_client
          (sample_config ''azurerm_linux_virtual_machine'' ''azurerm_linux_virtual_machine.c''
             (vm_disk_raw ''UltraSSD_LRS''))) = Inr (Some 73)"
proof -
  let ?q = "JObj [(''retailPrice'', JNum 0.1)]"
  obtain c1 where price:
    "get_vm_price sample_env new_client (JStr ''Standard_B2s'') (JStr ''eastus'') = (Inr ?q, c1)"
    using sample_vm_price
    by (cases "get_vm_price sample_env new_client (JStr ''Standard_B2s'') (JStr ''eastus'')") simp
  obtain c2 where disk_price:
    "get_managed_disk_price sample_env c1 (JStr ''UltraSSD_LRS'') 128 (JStr ''eastus'') =
       (Inr JNull, c2)"
    using sample_disk_price_absent price
    by (cases "get_managed_disk_price sample_env c1 (JStr ''UltraSSD_LRS'') 128 (JStr ''eastus'')")
      simp
  have q: "truthy ?q" "quote_price sample_env ?q = Inr (1 / 10)"
    by (simp_all add: quote_price_def and_then_def dict_get_def)
  have loc: "truthy (JStr ''eastus'')" and sz: "truthy (JStr ''Standard_B2s'')" by simp_all
  have a: "dict_get (vm_disk_raw ''UltraSSD_LRS'') ''size'' JNull = JStr ''Standard_B2s''"
    and disk: "os_disk_type (JObj (vm_disk_raw ''UltraSSD_LRS'')) = Inr (JStr ''UltraSSD_LRS'')"
      "truthy (JStr ''UltraSSD_LRS'')" "\<not> truthy JNull"
    by (simp_all add: vm_disk_raw_def dict_get_def os_disk_type_def and_then_def)
  have l: "get_location (sample_config ''azurerm_linux_virtual_machine''
       ''azurerm_linux_virtual_machine.c'' (vm_disk_raw ''UltraSSD_LRS'')) = Inr (JStr ''eastus'')"
    unfolding vm_disk_raw_def by (rule sample_location)
  from vm_disk_price_absent [OF sample_raw_values a l sz loc price q disk(1,2) disk_price disk(3)]
  show ?thesis by simp
qed

subsection \<open>Storage account\<close>

lemma sample_storage_price:
  "fst (get_storage_price sample_env new_client (JStr ''Standard_ZRS'') (JStr ''eastus'')) =
     Inr (JObj [(''retailPrice'', JNum 0.02)])"
  by code_simp

text \<open>
  C8. For a storage account configuration with an account tier, a replication type and
  a location, the handler asks for the price of the SKU named tier, underscore,
  replication type, and returns the price of the quote times 100; a price of 0.02 gives
  exactly 2. When one of the three is missing it returns \<^verbatim>\<open>None\<close>.
\<close>

theorem storage_monthly_cost:
  assumes "dict_get cfg ''raw_values'' (JObj []) = JObj raw"
    and "dict_get raw ''account_tier'' (JStr []) = account_tier"
    and "dict_get raw ''account_replication_type'' (JStr []) = replication_type"
    and "get_location cfg = Inr location"
  shows "(truthy account_tier \<and> truthy replication_type \<and> truthy location \<longrightarrow>
            (\<forall>q c' p.
               get_storage_price E c (JStr (fmt E account_tier @ ''_'' @ fmt E replication_type))
                 location = (Inr q, c') \<and> truthy q \<and> quote_price E q = Inr p \<longrightarrow>
               storage_calculate_cost E c cfg = (Inr (Some (p * 100)), c'))) \<and>
         (\<forall>t r. account_tier = JStr t \<and> replication_type = JStr r \<longrightarrow>
            fmt E account_tier @ ''_'' @ fmt E replication_type = t @ ''_'' @ r) \<and>
         (\<not> (truthy account_tier \<and> truthy replication_type \<and> truthy location) \<longrightarrow>
            storage_calculate_cost E c cfg = (Inr None, c))"
  using assms
  by (auto simp: storage_calculate_cost_def storage_try_def catch_none_def Let_def)

theorem storage_monthly_cost_witness:
  "fst (storage_calculate_cost sample_env new_client
          (sample_config ''azurerm_storage_account'' ''azurerm_storage_account.a'' storage_raw))
     = Inr (Some 2) \<and>
   fst (storage_calculate_cost sample_env new_client
          (sample_config ''azurerm_storage_account'' ''azurerm_storage_account.b''
             [(''location'', JStr ''eastus''), (''account_tier'', JStr ''Standard'')]))
     = Inr None"
proof -
  let ?q = "JObj [(''retailPrice'', JNum 0.02)]"
  obtain c1 where price:
    "get_storage_price sample_env new_client (JStr ''Standard_ZRS'') (JStr ''eastus'') =
       (Inr ?q, c1)"
    using sample_storage_price
    by (cases "get_storage_price sample_env new_client (JStr ''Standard_ZRS'') (JStr ''eastus'')")
      simp
  have q: "truthy ?q" "quote_price sample_env ?q = Inr (2 / 100)"
    by (simp_all add: quote_price_def and_then_def dict_get_def)
  have a: "dict_get storage_raw ''account_tier'' (JStr []) = JStr ''Standard''"
    and b: "dict_get storage_raw ''account_replication_type'' (JStr []) = JStr ''ZRS''"
    by (simp_all add: storage_raw_def dict_get_def)
  have l: "get_location (sample_config ''azurerm_storage_account'' ''azurerm_storage_account.a''
       storage_raw) = Inr (JStr ''eastus'')"
    unfolding storage_raw_def by (rule sample_location)
  have name: "fmt sample_env (JStr ''Standard'') @ ''_'' @ fmt sample_env (JStr ''ZRS'') =
      ''Standard_ZRS''"
    by simp
  from storage_monthly_cost [OF sample_raw_values a b l, of sample_env new_client]
  have "\<forall>q c' p.
      get_storage_price sample_env new_client (JStr ''Standard_ZRS'') (JStr ''eastus'') = (Inr q, c')
        \<and> truthy q \<and> quote_price sample_env q = Inr p \<longrightarrow>
      storage_calculate_cost sample_env new_client
        (sample_config ''azurerm_storage_account'' ''azurerm_storage_account.a'' storage_raw)
      = (Inr (Some (p * 100)), c')"
    by simp
  with price q
  have first: "storage_calculate_cost sample_env new_client
       (sample_config ''azurerm_storage_account'' ''azurerm_storage_account.a'' storage_raw)
     = (Inr (Some (2 / 100 * 100)), c1)"
    by blast
  have a': "dict_get [(''location'', JStr ''eastus''), (''account_tier'', JStr ''Standard'')]
       ''account_tier'' (JStr []) = JStr ''Standard''"
    and b': "dict_get [(''location'', JStr ''eastus''), (''account_tier'', JStr ''Standard'')]
       ''account_replication_type'' (JStr []) = JStr []"
    by (simp_all add: dict_get_def)
  from storage_monthly_cost [OF sample_raw_values a' b' sample_location,
      of sample_env new_client]
  have second: "storage_calculate_cost sample_env new_client
       (sample_config ''azurerm_storage_account'' ''azurerm_storage_account.b''
          [(''location'', JStr ''eastus''), (''account_tier'', JStr ''Standard'')])
     = (Inr None, new_client)"
    by simp
  from first second show ?thesis by simp
qed

text \<open>
  The SKUs of the static table never reach the pricing service: \<^verbatim>\<open>Standard_LRS\<close> is
  priced at 0.0184 per GB, whatever the service would answer.
\<close>

lemma storage_static_example:
  "storage_calculate_cost E c
     (sample_config ''azurerm_storage_account'' ''azurerm_storage_account.test''
        [(''location'', JStr ''eastus''), (''account_tier'', JStr ''Standard''),
         (''account_replication_type'', JStr ''LRS'')])
   = (Inr (Some 1.84), c)"
  by (simp add: storage_calculate_cost_def sample_config_def dict_get_def get_location_def
      and_then_def storage_try_def get_storage_price_def STORAGE_PRICING_def catch_none_def)

section \<open>Properties of the pricing cache\<close>

text \<open>
  The cache key does not depend on the order of the keyword arguments: they are sorted
  by name, and the names of keyword arguments are distinct.
\<close>

lemma filter_same_key:
  "distinct (map f xs) \<Longrightarrow> k \<in> set xs \<Longrightarrow> filter (\<lambda>x. f k = f x) xs = [k]"
proof (induction xs)
  case Nil
  then show ?case by simp
next
  case (Cons a xs)
  show ?case
  proof (cases "k = a")
    case True
    have "filter (\<lambda>x. f a = f x) xs = []"
      using Cons.prems(1) by (auto simp: filter_empty_conv)
    with True show ?thesis by simp
  next
    case False
    with Cons.prems have kx: "k \<in> set xs" by simp
    then have "f k \<in> f ` set xs" by (rule imageI)
    moreover from Cons.prems(1) have "f a \<notin> f ` set xs" by simp
    ultimately have "f k \<noteq> f a" by auto
    with Cons kx show ?thesis by simp
  qed
qed

lemma sort_key_permutation:
  assumes "distinct (map f xs)" and "mset ys = mset xs"
  shows "sort_key f ys = sort_key f xs"
proof (rule properties_for_sort_key)
  show "mset (sort_key f xs) = mset ys" using assms(2) by simp
  show "sorted (map f (sort_key f xs))" by simp
  fix k assume "k \<in> set (sort_key f xs)"
  then have kx: "k \<in> set xs" by simp
  from assms(2) have "set ys = set xs" by (rule mset_eq_setD)
  with kx have ky: "k \<in> set ys" by simp
  from assms(2) have "mset (map f ys) = mset (map f xs)" by simp
  from mset_eq_imp_distinct_iff [OF this] assms(1) have dy: "distinct (map f ys)" by simp
  have "filter (\<lambda>x. f k = f x) (sort_key f xs) = sort_key f (filter (\<lambda>x. f k = f x) xs)"
    by (rule filter_sort)
  also have "\<dots> = [k]" using filter_same_key [OF assms(1) kx] by simp
  also have "\<dots> = filter (\<lambda>x. f k = f x) ys" using filter_same_key [OF dy ky] by simp
  finally show "filter (\<lambda>x. f k = f x) (sort_key f xs) = filter (\<lambda>x. f k = f x) ys" .
qed

lemma cache_key_permutation:
  assumes "distinct (map fst filters)" and "mset filters' = mset filters"
  shows "cache_key E filters' = cache_key E filters"
  using sort_key_permutation [OF assms] by (simp add: cache_key_def)

lemma fetch_remote_cached:
  assumes "fetch_remote E c key filters = (Inr q, c1)" and "q \<noteq> JNull"
  shows "cache c1 key = Some q \<and> cache_timestamps c1 key = Some (clock E (ticks c))"
  using assms
  by (auto simp: fetch_remote_def Let_def split: sum.splits option.splits)

lemma fetch_price_cached:
  assumes "fetch_price E c filters = (Inr q, c1)" and "q \<noteq> JNull"
  shows "cache c1 (cache_key E filters) = Some q \<and>
         (\<exists>stamp. cache_timestamps c1 (cache_key E filters) = Some stamp)"
proof (cases "cache c (cache_key E filters)")
  case None
  with assms(1) have "fetch_remote E c (cache_key E filters) filters = (Inr q, c1)"
    by (simp add: fetch_price_def)
  from fetch_remote_cached [OF this assms(2)] show ?thesis by simp
next
  case (Some cached)
  show ?thesis
  proof (cases "cache_timestamps c (cache_key E filters)")
    case None
    with Some assms(1) show ?thesis by (simp add: fetch_price_def Let_def)
  next
    case (Some stamp)
    show ?thesis
    proof (cases "clock E (ticks c) - stamp < CACHE_DURATION")
      case True
      with \<open>cache c (cache_key E filters) = Some cached\<close> Some assms(1)
      show ?thesis by (auto simp: fetch_price_def Let_def)
    next
      case False
      with \<open>cache c (cache_key E filters) = Some cached\<close> Some assms(1)
      have "fetch_remote E (c\<lparr>ticks := Suc (ticks c)\<rparr>) (cache_key E filters) filters
              = (Inr q, c1)"
        by (simp add: fetch_price_def Let_def)
      from fetch_remote_cached [OF this assms(2)] show ?thesis by simp
    qed
  qed
qed

lemma fetch_price_hit:
  assumes "cache c (cache_key E filters) = Some q"
    and "cache_timestamps c (cache_key E filters) = Some stamp"
    and "clock E (ticks c) - stamp < CACHE_DURATION"
  shows "fetch_price E c filters = (Inr q, c\<lparr>ticks := Suc (ticks c)\<rparr>)"
  using assms by (simp add: fetch_price_def Let_def)

lemma fetch_price_expired:
  assumes "cache c (cache_key E filters) = Some q"
    and "cache_timestamps c (cache_key E filters) = Some stamp"
    and "\<not> clock E (ticks c) - stamp < CACHE_DURATION"
    and "filter_parts E filters = Inr parts"
  shows "requests (snd (fetch_price E c filters)) = requests c @ [join '' and '' parts] \<and>
         fst (fetch_price E c filters) =
           (case and_then (remote E (length (requests c)) (join '' and '' parts)) first_item of
              Inl e \<Rightarrow> Inl e
            | Inr None \<Rightarrow> Inr JNull
            | Inr (Some price_data) \<Rightarrow> Inr price_data)"
  using assms
  by (simp add: fetch_price_def fetch_remote_def Let_def split: sum.splits option.splits)

text \<open>
  What a lookup does to the cache: it sends at most requests of its own, it leaves the
  entries of every other key as they are, it removes no entry, and it changes nothing
  when it sends no request. The same holds for a sequence of lookups.
\<close>

lemma fetch_remote_effect:
  assumes "fetch_remote E c key filters = (r, c')"
  shows "(\<exists>more. requests c' = requests c @ more) \<and>
         (\<forall>k. k \<noteq> key \<longrightarrow> cache c' k = cache c k \<and> cache_timestamps c' k = cache_timestamps c k) \<and>
         (cache c key \<noteq> None \<and> cache_timestamps c key \<noteq> None \<longrightarrow>
            cache c' key \<noteq> None \<and> cache_timestamps c' key \<noteq> None) \<and>
         (requests c' = requests c \<longrightarrow>
            cache c' = cache c \<and> cache_timestamps c' = cache_timestamps c)"
  using assms
  by (auto simp: fetch_remote_def Let_def split: sum.splits option.splits)

lemma fetch_price_effect:
  assumes "fetch_price E c filters = (r, c')"
  shows "(\<exists>more. requests c' = requests c @ more) \<and>
         (\<forall>k. k \<noteq> cache_key E filters \<longrightarrow>
            cache c' k = cache c k \<and> cache_timestamps c' k = cache_timestamps c k) \<and>
         (\<forall>k. cache c k \<noteq> None \<and> cache_timestamps c k \<noteq> None \<longrightarrow>
            cache c' k \<noteq> None \<and> cache_timestamps c' k \<noteq> None) \<and>
         (requests c' = requests c \<longrightarrow>
            cache c' = cache c \<and> cache_timestamps c' = cache_timestamps c)"
proof -
  let ?key = "cache_key E filters"
  have remote: ?thesis
    if "fetch_remote E c0 ?key filters = (r, c')"
      and "requests c0 = requests c" and "cache c0 = cache c"
      and "cache_timestamps c0 = cache_timestamps c" for c0
  proof -
    from fetch_remote_effect [OF that(1)] that(2-4)
    have e: "(\<exists>more. requests c' = requests c @ more)"
      "\<forall>k. k \<noteq> ?key \<longrightarrow> cache c' k = cache c k \<and> cache_timestamps c' k = cache_timestamps c k"
      "cache c ?key \<noteq> None \<and> cache_timestamps c ?key \<noteq> None \<longrightarrow>
         cache c' ?key \<noteq> None \<and> cache_timestamps c' ?key \<noteq> None"
      "requests c' = requests c \<longrightarrow> cache c' = cache c \<and> cache_timestamps c' = cache_timestamps c"
      by simp_all
    have "cache c' k \<noteq> None \<and> cache_timestamps c' k \<noteq> None"
      if "cache c k \<noteq> None \<and> cache_timestamps c k \<noteq> None" for k
      using that e(2,3) by (cases "k = ?key") auto
    with e show ?thesis by blast
  qed
  show ?thesis
  proof (cases "cache c ?key")
    case None
    with assms have "fetch_remote E c ?key filters = (r, c')" by (simp add: fetch_price_def)
    from remote [OF this] show ?thesis by simp
  next
    case (Some cached)
    show ?thesis
    proof (cases "cache_timestamps c ?key")
      case None
      with Some assms show ?thesis by (auto simp: fetch_price_def Let_def)
    next
      case (Some stamp)
      show ?thesis
      proof (cases "clock E (ticks c) - stamp < CACHE_DURATION")
        case True
        with \<open>cache c ?key = Some cached\<close> Some assms show ?thesis
          by (auto simp: fetch_price_def Let_def)
      next
        case False
        with \<open>cache c ?key = Some cached\<close> Some assms
        have "fetch_remote E (c\<lparr>ticks := Suc (ticks c)\<rparr>) ?key filters = (r, c')"
          by (simp add: fetch_price_def Let_def)
        from remote [OF this] show ?thesis by simp
      qed
    qed
  qed
qed

lemma lookups_requests: "\<exists>more. requests (lookups E c others) = requests c @ more"
proof (induction others arbitrary: c)
  case Nil
  show ?case by simp
next
  case (Cons filters rest)
  obtain r c1 where s: "fetch_price E c filters = (r, c1)" by (cases "fetch_price E c filters")
  from fetch_price_effect [OF s] obtain m1 where "requests c1 = requests c @ m1" by blast
  moreover from Cons.IH [of c1] obtain m2 where
    "requests (lookups E c1 rest) = requests c1 @ m2" by blast
  ultimately show ?case using s by simp
qed

lemma lookups_present:
  assumes "cache c k \<noteq> None \<and> cache_timestamps c k \<noteq> None"
  shows "cache (lookups E c others) k \<noteq> None \<and> cache_timestamps (lookups E c others) k \<noteq> None"
  using assms
proof (induction others arbitrary: c)
  case Nil
  then show ?case by simp
next
  case (Cons filters rest)
  obtain r c1 where s: "fetch_price E c filters = (r, c1)" by (cases "fetch_price E c filters")
  from fetch_price_effect [OF s] Cons.prems
  have "cache c1 k \<noteq> None \<and> cache_timestamps c1 k \<noteq> None" by blast
  from Cons.IH [OF this] s show ?case by simp
qed

lemma lookups_other_keys:
  assumes "list_all (\<lambda>filters. cache_key E filters \<noteq> k) others"
  shows "cache (lookups E c others) k = cache c k \<and>
         cache_timestamps (lookups E c others) k = cache_timestamps c k"
  using assms
proof (induction others arbitrary: c)
  case Nil
  then show ?case by simp
next
  case (Cons filters rest)
  obtain r c1 where s: "fetch_price E c filters = (r, c1)" by (cases "fetch_price E c filters")
  from Cons.prems have k: "k \<noteq> cache_key E filters" and rest: "list_all (\<lambda>f. cache_key E f \<noteq> k) rest"
    by auto
  from fetch_price_effect [OF s] k
  have "cache c1 k = cache c k \<and> cache_timestamps c1 k = cache_timestamps c k" by blast
  with Cons.IH [OF rest, of c1] s show ?case by simp
qed

lemma lookups_without_request:
  assumes "requests (lookups E c others) = requests c"
  shows "cache (lookups E c others) = cache c \<and>
         cache_timestamps (lookups E c others) = cache_timestamps c"
  using assms
proof (induction others arbitrary: c)
  case Nil
  then show ?case by simp
next
  case (Cons filters rest)
  obtain r c1 where s: "fetch_price E c filters = (r, c1)" by (cases "fetch_price E c filters")
  from fetch_price_effect [OF s] obtain m1 where m1: "requests c1 = requests c @ m1" by blast
  from lookups_requests [of E c1 rest] obtain m2 where
    m2: "requests (lookups E c1 rest) = requests c1 @ m2" by blast
  from Cons.prems s have "requests (lookups E c1 rest) = requests c" by simp
  with m1 m2 have "m1 = []" and "m2 = []" by simp_all
  with m1 m2 have q1: "requests c1 = requests c" and q2: "requests (lookups E c1 rest) = requests c1"
    by simp_all
  from fetch_price_effect [OF s] q1
  have "cache c1 = cache c \<and> cache_timestamps c1 = cache_timestamps c" by blast
  with Cons.IH [OF q2] s show ?case by simp
qed


lemma sample_first_lookup:
  "fst (fetch_price sample_env new_client vm_filters) = Inr (JObj [(''retailPrice'', JNum 0.1)])"
  "cache_timestamps (snd (fetch_price sample_env new_client vm_filters))
     (cache_key sample_env vm_filters) = Some 0"
  "list_all (\<lambda>other. cache_key sample_env other \<noteq> cache_key sample_env vm_filters)
     [disk_filters, storage_filters]"
  "clock sample_env
     (ticks (lookups sample_env (snd (fetch_price sample_env new_client vm_filters))
               [disk_filters, storage_filters])) - 0 < CACHE_DURATION"
  "length (requests (lookups sample_env (snd (fetch_price sample_env new_client vm_filters))
                       [disk_filters, storage_filters])) = 3"
  by code_simp+

lemma sample_late_lookup:
  "fst (fetch_price late_env new_client vm_filters) = Inr (JObj [(''retailPrice'', JNum 0.1)])"
  "cache_timestamps (snd (fetch_price late_env new_client vm_filters))
     (cache_key late_env vm_filters) = Some 0"
  "list_all (\<lambda>other. cache_key late_env other \<noteq> cache_key late_env vm_filters) [disk_filters]"
  "\<not> clock late_env
       (ticks (lookups late_env (snd (fetch_price late_env new_client vm_filters))
                 [disk_filters])) - 0 < CACHE_DURATION"
  "length (requests (lookups late_env (snd (fetch_price late_env new_client vm_filters))
                       [disk_filters])) = 2"
  "case filter_parts late_env vm_filters_reordered of Inl e \<Rightarrow> False | Inr parts \<Rightarrow> True"
  by code_simp+



section \<open>Properties of the aggregation\<close>

lemma marked_Cons [simp]:
  "marked (True # fs) (x # xs) = x # marked fs xs"
  "marked (False # fs) (x # xs) = marked fs xs"
  "unmarked (True # fs) (x # xs) = unmarked fs xs"
  "unmarked (False # fs) (x # xs) = x # unmarked fs xs"
  "marked [] [] = []" "unmarked [] [] = []"
  by (simp_all add: marked_def unmarked_def)

lemma length_marked_unmarked:
  "length fs = length xs \<Longrightarrow> length (marked fs xs) + length (unmarked fs xs) = length xs"
proof (induction fs arbitrary: xs)
  case Nil
  then show ?case by simp
next
  case (Cons f fs)
  then obtain y ys where xs: "xs = y # ys" by (cases xs) auto
  with Cons.prems have "length fs = length ys" by simp
  from Cons.IH [OF this] xs show ?case by (cases f) simp_all
qed

lemma mset_marked_unmarked:
  "length fs = length xs \<Longrightarrow> mset (marked fs xs) + mset (unmarked fs xs) = mset xs"
proof (induction fs arbitrary: xs)
  case Nil
  then show ?case by simp
next
  case (Cons f fs)
  then obtain y ys where xs: "xs = y # ys" by (cases xs) auto
  with Cons.prems have "length fs = length ys" by simp
  from Cons.IH [OF this] xs show ?case by (cases f) simp_all
qed

lemma mark_known_simps [simp]:
  "resources (mark_known r cost acc) =
     resources acc @
       [\<lparr>address = dict_get r ''address'' (JStr ''''), rtype = dict_get r ''type'' (JStr ''''),
         name = dict_get r ''name'' (JStr ''''), monthly_cost = Some cost,
         details = extract_cost_details r\<rparr>]"
  "total_monthly_cost (mark_known r cost acc) = total_monthly_cost acc + cost"
  "unknown_costs (mark_known r cost acc) = unknown_costs acc"
  by (simp_all add: mark_known_def)

lemma mark_unknown_simps [simp]:
  "resources (mark_unknown r acc) = resources acc"
  "total_monthly_cost (mark_unknown r acc) = total_monthly_cost acc"
  "unknown_costs (mark_unknown r acc) =
     unknown_costs acc @ [dict_get r ''address'' (JStr ''Unknown resource'')]"
  by (simp_all add: mark_unknown_def)

lemma known_cost_Some [simp]:
  "known_cost \<lparr>address = a, rtype = t, name = n, monthly_cost = Some cost, details = d\<rparr> = cost"
  by (simp add: known_cost_def)

text \<open>
  One turn of the loop files the resource by its price: under the resources with the
  cost as its monthly cost, or under the unknown costs when it has no price.
\<close>

lemma cost_step_price_of:
  assumes "cost_step E c acc r = (Inr acc', c')"
  shows "snd (price_of E c r) = c' \<and>
         acc' = (case fst (price_of E c r) of
                   Some cost \<Rightarrow> mark_known r cost acc
                 | None \<Rightarrow> mark_unknown r acc)"
  using assms
  by (auto simp: cost_step_def price_of_def split: sum.splits option.splits prod.splits)

lemma cost_loop_invariant:
  assumes "cost_loop E c acc rcs = (Inr b, c')"
  shows "length (price_list E c rcs) = length rcs \<and>
         map monthly_cost (resources b) =
           map monthly_cost (resources acc) @ filter (\<lambda>cost. cost \<noteq> None) (price_list E c rcs) \<and>
         map address (resources b) =
           map address (resources acc) @
             map (\<lambda>r. dict_get r ''address'' (JStr []))
               (marked (map (\<lambda>cost. cost \<noteq> None) (price_list E c rcs)) rcs) \<and>
         unknown_costs b =
           unknown_costs acc @
             map (\<lambda>r. dict_get r ''address'' (JStr ''Unknown resource''))
               (unmarked (map (\<lambda>cost. cost \<noteq> None) (price_list E c rcs)) rcs) \<and>
         total_monthly_cost b - sum_list (map known_cost (resources b)) =
           total_monthly_cost acc - sum_list (map known_cost (resources acc))"
  using assms
proof (induction rcs arbitrary: c acc)
  case Nil
  then show ?case by simp
next
  case (Cons r rcs)
  from Cons.prems obtain acc1 c1 where
    step: "cost_step E c acc r = (Inr acc1, c1)" and
    rest: "cost_loop E c1 acc1 rcs = (Inr b, c')"
    by (auto split: prod.splits sum.splits)
  from cost_step_price_of [OF step]
  have c1: "snd (price_of E c r) = c1"
    and a1: "acc1 = (case fst (price_of E c r) of
                       Some cost \<Rightarrow> mark_known r cost acc
                     | None \<Rightarrow> mark_unknown r acc)"
    by simp_all
  note ih = Cons.IH [OF rest]
  show ?case
  proof (cases "fst (price_of E c r)")
    case None
    with a1 have "acc1 = mark_unknown r acc" by simp
    with ih c1 None show ?thesis by simp
  next
    case (Some cost)
    with a1 have "acc1 = mark_known r cost acc" by simp
    with ih c1 Some show ?thesis by simp
  qed
qed

lemma set_marked: "set (marked fs xs) \<subseteq> set xs"
  by (auto simp: marked_def dest: set_zip_leftD)

lemma set_unmarked: "set (unmarked fs xs) \<subseteq> set xs"
  by (auto simp: unmarked_def dest: set_zip_leftD)

lemma extract_has_address:
  "extract_resource_config ch = Inr cfg \<Longrightarrow> dict_get cfg ''address'' d = config_address cfg"
  by (auto simp: extract_resource_config_def and_then_def config_address_def dict_get_def
      split: sum.splits)

lemma collect_has_address:
  assumes "collect_changes acc chs = Inr cfgs"
    and "\<forall>r\<in>set acc. \<forall>d. dict_get r ''address'' d = config_address r"
  shows "\<forall>r\<in>set cfgs. \<forall>d. dict_get r ''address'' d = config_address r"
  using assms
proof (induction chs arbitrary: acc)
  case Nil
  then show ?case by simp
next
  case (Cons ch chs)
  show ?case
  proof (cases "wanted_actions ch")
    case (Inl e)
    with Cons.prems(1) show ?thesis by simp
  next
    case (Inr w)
    show ?thesis
    proof (cases w)
      case False
      with Inr Cons.prems(1) have "collect_changes acc chs = Inr cfgs" by simp
      from Cons.IH [OF this Cons.prems(2)] show ?thesis .
    next
      case True
      with Inr Cons.prems(1) obtain cfg where
        e: "extract_resource_config ch = Inr cfg"
        and c: "collect_changes (acc @ [cfg]) chs = Inr cfgs"
        by (auto split: sum.splits)
      from extract_has_address [OF e] Cons.prems(2)
      have "\<forall>r\<in>set (acc @ [cfg]). \<forall>d. dict_get r ''address'' d = config_address r" by auto
      from Cons.IH [OF c this] show ?thesis .
    qed
  qed
qed

lemma get_resource_changes_has_address:
  assumes "get_resource_changes p = Inr rcs" and "r \<in> set rcs"
  shows "dict_get r ''address'' d = config_address r"
proof -
  from assms(1) have "rcs = [] \<or> (\<exists>chs. collect_changes [] chs = Inr rcs)"
    by (auto simp: get_resource_changes_def split: if_splits sum.splits bool.splits)
  then show ?thesis
  proof
    assume "rcs = []"
    with assms(2) show ?thesis by simp
  next
    assume "\<exists>chs. collect_changes [] chs = Inr rcs"
    then obtain chs where "collect_changes [] chs = Inr rcs" ..
    from collect_has_address [OF this] assms(2) show ?thesis by simp
  qed
qed

lemma priced_run:
  "case fst (calculate_costs sample_env (Inr (JObj priced_plan)) (Inl FileNotFoundError)
               new_calculator) of
     Inl e \<Rightarrow> False
   | Inr b \<Rightarrow>
       map address (resources b) =
         [JStr ''azurerm_linux_virtual_machine.test'', JStr ''azurerm_storage_account.test'',
          JStr ''azurerm_virtual_network.vnet''] \<and>
       unknown_costs b =
         [JStr ''azurerm_managed_disk.broken'', JStr ''azurerm_kubernetes_cluster.k8s'']"
  "case get_resource_changes \<lparr>plan_data = JObj priced_plan\<rparr> of
     Inl e \<Rightarrow> False
   | Inr rcs \<Rightarrow>
       filter (\<lambda>cost. cost \<noteq> None) (price_list sample_env new_client rcs) =
         [Some 70.08, Some 1.84, Some 0]"
  by code_simp+

text \<open>A cost of exactly zero is a known cost.\<close>

lemma zero_cost_is_known:
  assumes "get_handler (dict_get r ''type'' (JStr [])) = Inr (Some h)"
    and "calculate_cost h E c r = (Inr (Some 0), c1)"
  shows "cost_step E c acc r = (Inr (mark_known r 0 acc), c1)"
  using assms by (simp add: cost_step_def)

text \<open>
  C1. The breakdown returned by \<open>calculate_costs\<close> has as total the sum of the
  monthly costs of its resources list, every entry of which has a cost. The
  configurations extracted from the plan are split between the two lists by their
  prices: those whose rule returns a cost, a cost of exactly zero included, give, in
  order, the resources list with that cost as monthly cost; the others give, in order,
  the list of unknown costs. No configuration is in both lists or in neither.
\<close>

theorem calculate_costs_sum_and_partition:
  assumes "calculate_costs E read_sig read_plain calc = (Inr b, calc')"
  shows "total_monthly_cost b = sum_list (map known_cost (resources b)) \<and>
         list_all (\<lambda>r. monthly_cost r \<noteq> None) (resources b) \<and>
         (\<exists>p rcs costs.
            load_plan read_sig read_plain (plan_parser calc) = Inr p \<and>
            plan_parser calc' = p \<and>
            get_resource_changes p = Inr rcs \<and>
            costs = price_list E (pricing_client calc) rcs \<and>
            length costs = length rcs \<and>
            map monthly_cost (resources b) = filter (\<lambda>cost. cost \<noteq> None) costs \<and>
            map address (resources b) =
              map config_address (marked (map (\<lambda>cost. cost \<noteq> None) costs) rcs) \<and>
            unknown_costs b =
              map config_address (unmarked (map (\<lambda>cost. cost \<noteq> None) costs) rcs) \<and>
            length (resources b) + length (unknown_costs b) = length rcs)"
proof -
  from assms obtain p rcs c' where
    ld: "load_plan read_sig read_plain (plan_parser calc) = Inr p"
    and p: "plan_parser calc' = p"
    and g: "get_resource_changes p = Inr rcs"
    and l: "cost_loop E (pricing_client calc)
              \<lparr>resources = [], total_monthly_cost = 0, unknown_costs = []\<rparr> rcs = (Inr b, c')"
    by (auto simp: calculate_costs_def Let_def split: sum.splits prod.splits)
  let ?costs = "price_list E (pricing_client calc) rcs"
  let ?known = "map (\<lambda>cost. cost \<noteq> None) ?costs"
  from cost_loop_invariant [OF l] have k:
    "length ?costs = length rcs"
    "map monthly_cost (resources b) = filter (\<lambda>cost. cost \<noteq> None) ?costs"
    "map address (resources b) = map (\<lambda>r. dict_get r ''address'' (JStr [])) (marked ?known rcs)"
    "unknown_costs b =
       map (\<lambda>r. dict_get r ''address'' (JStr ''Unknown resource'')) (unmarked ?known rcs)"
    "total_monthly_cost b - sum_list (map known_cost (resources b)) = 0"
    by simp_all
  have a1: "map (\<lambda>r. dict_get r ''address'' (JStr [])) (marked ?known rcs) =
      map config_address (marked ?known rcs)"
    using get_resource_changes_has_address [OF g] set_marked [of ?known rcs] by auto
  have a2: "map (\<lambda>r. dict_get r ''address'' (JStr ''Unknown resource'')) (unmarked ?known rcs) =
      map config_address (unmarked ?known rcs)"
    using get_resource_changes_has_address [OF g] set_unmarked [of ?known rcs] by auto
  have "list_all (\<lambda>cost. cost \<noteq> None) (map monthly_cost (resources b))"
    unfolding k(2) by (simp add: list_all_iff)
  then have some: "list_all (\<lambda>r. monthly_cost r \<noteq> None) (resources b)"
    by (simp add: list_all_iff)
  have lk: "length ?known = length rcs" using k(1) by simp
  have "length (resources b) = length (map address (resources b))" by simp
  also have "\<dots> = length (marked ?known rcs)" by (simp add: k(3))
  finally have n1: "length (resources b) = length (marked ?known rcs)" .
  have n2: "length (unknown_costs b) = length (unmarked ?known rcs)" by (simp add: k(4))
  from length_marked_unmarked [OF lk] n1 n2
  have n: "length (resources b) + length (unknown_costs b) = length rcs" by simp
  from k(5) have t: "total_monthly_cost b = sum_list (map known_cost (resources b))" by simp
  from ld p g k(1) k(2) k(3) k(4) a1 a2 n
  have "\<exists>p rcs costs.
            load_plan read_sig read_plain (plan_parser calc) = Inr p \<and>
            plan_parser calc' = p \<and>
            get_resource_changes p = Inr rcs \<and>
            costs = price_list E (pricing_client calc) rcs \<and>
            length costs = length rcs \<and>
            map monthly_cost (resources b) = filter (\<lambda>cost. cost \<noteq> None) costs \<and>
            map address (resources b) =
              map config_address (marked (map (\<lambda>cost. cost \<noteq> None) costs) rcs) \<and>
            unknown_costs b =
              map config_address (unmarked (map (\<lambda>cost. cost \<noteq> None) costs) rcs) \<and>
            length (resources b) + length (unknown_costs b) = length rcs"
    by (intro exI [of _ p] exI [of _ rcs] exI [of _ ?costs]) simp
  with t some show ?thesis by simp
qed

theorem calculate_costs_sum_and_partition_witness:
  "\<exists>b calc'.
     calculate_costs sample_env (Inr (JObj priced_plan)) (Inl FileNotFoundError) new_calculator
       = (Inr b, calc') \<and>
     total_monthly_cost b = sum_list (map known_cost (resources b)) \<and>
     map monthly_cost (resources b) = [Some 70.08, Some 1.84, Some 0] \<and>
     map address (resources b) =
       [JStr ''azurerm_linux_virtual_machine.test'', JStr ''azurerm_storage_account.test'',
        JStr ''azurerm_virtual_network.vnet''] \<and>
     unknown_costs b =
       [JStr ''azurerm_managed_disk.broken'', JStr ''azurerm_kubernetes_cluster.k8s'']"
proof -
  obtain r calc' where run:
    "calculate_costs sample_env (Inr (JObj priced_plan)) (Inl FileNotFoundError) new_calculator
       = (r, calc')"
    by (cases "calculate_costs sample_env (Inr (JObj priced_plan)) (Inl FileNotFoundError)
          new_calculator")
  with priced_run(1) obtain b where b: "r = Inr b"
    and v: "map address (resources b) =
         [JStr ''azurerm_linux_virtual_machine.test'', JStr ''azurerm_storage_account.test'',
          JStr ''azurerm_virtual_network.vnet'']"
      "unknown_costs b =
         [JStr ''azurerm_managed_disk.broken'', JStr ''azurerm_kubernetes_cluster.k8s'']"
    by (cases r) auto
  have ld: "load_plan (Inr (JObj priced_plan)) (Inl FileNotFoundError)
      (plan_parser new_calculator) = Inr \<lparr>plan_data = JObj priced_plan\<rparr>"
    by (simp add: load_plan_def new_calculator_def new_parser_def)
  have pc: "pricing_client new_calculator = new_client" by (simp add: new_calculator_def)
  from calculate_costs_sum_and_partition [OF run [unfolded b]] ld pc
  obtain rcs where
    t: "total_monthly_cost b = sum_list (map known_cost (resources b))"
    and g: "get_resource_changes \<lparr>plan_data = JObj priced_plan\<rparr> = Inr rcs"
    and m: "map monthly_cost (resources b) =
        filter (\<lambda>cost. cost \<noteq> None) (price_list sample_env new_client rcs)"
    by auto
  from priced_run(2) g
  have "filter (\<lambda>cost. cost \<noteq> None) (price_list sample_env new_client rcs) =
      [Some 70.08, Some 1.84, Some 0]"
    by simp
  with m have "map monthly_cost (resources b) = [Some 70.08, Some 1.84, Some 0]"
    by (simp only:)
  with run b t v show ?thesis by simp
qed

lemma cost_step_total:
  assumes "type_hashable r"
  shows "\<exists>acc' c'. cost_step E c acc r = (Inr acc', c')"
proof -
  from assms have "\<exists>h. get_handler (dict_get r ''type'' (JStr [])) = Inr h"
    by (cases "dict_get r ''type'' (JStr [])") (auto simp: type_hashable_def get_handler_def)
  then show ?thesis
    by (auto simp: cost_step_def split: sum.splits option.splits prod.splits)
qed

lemma cost_loop_total:
  assumes "list_all type_hashable rcs"
  shows "\<exists>b c'. cost_loop E c acc rcs = (Inr b, c')"
  using assms
proof (induction rcs arbitrary: c acc)
  case Nil
  show ?case by simp
next
  case (Cons r rcs)
  then have h: "type_hashable r" and rest: "list_all type_hashable rcs" by simp_all
  from cost_step_total [OF h, of E c acc] obtain acc1 c1 where
    "cost_step E c acc r = (Inr acc1, c1)" by blast
  with Cons.IH [OF rest, of c1 acc1] show ?case by simp
qed

lemma extracted_type_hashable:
  assumes "extract_resource_config ch = Inr cfg" and "entry_type_hashable ch"
  shows "type_hashable cfg"
  using assms
  by (auto simp: extract_resource_config_def and_then_def entry_type_hashable_def
      type_hashable_def dict_get_def split: sum.splits json.splits)

lemma well_formed_plan_changes:
  assumes "plan_data p = JObj d"
    and "map_of d ''resource_changes'' = Some (JArr changes)"
    and "list_all well_formed_change changes"
    and "list_all entry_type_hashable (filter create_or_update changes)"
  shows "\<exists>rcs. get_resource_changes p = Inr rcs \<and> list_all type_hashable rcs"
proof -
  from assms(2) have ne: "d \<noteq> []" by auto
  from assms(3) have "\<forall>ch\<in>set changes. well_formed_change ch" by (simp add: list_all_iff)
  from collect_changes_wf [OF this, of "[]"] obtain rcs where
    c: "collect_changes [] changes = Inr rcs"
    and m: "map Inr rcs = map extract_resource_config (filter create_or_update changes)"
    by auto
  have g: "get_resource_changes p = Inr rcs"
    using assms(1,2) ne c by (simp add: get_resource_changes_def)
  have "type_hashable cfg" if "cfg \<in> set rcs" for cfg
  proof -
    from that have "Inr cfg \<in> set (map Inr rcs :: (error + dict) list)" by simp
    with m have "Inr cfg \<in> set (map extract_resource_config (filter create_or_update changes))"
      by simp
    then obtain ch where ch: "ch \<in> set (filter create_or_update changes)"
      and e: "extract_resource_config ch = Inr cfg"
      by auto
    from ch assms(4) have "entry_type_hashable ch" by (simp add: list_all_iff)
    from extracted_type_hashable [OF e this] show ?thesis .
  qed
  then have "list_all type_hashable rcs" by (simp add: list_all_iff)
  with g show ?thesis by blast
qed

lemma sample_run:
  "case fst (calculate_costs sample_env (Inr (JObj sample_plan)) (Inl FileNotFoundError)
               new_calculator) of
     Inl e \<Rightarrow> False
   | Inr b \<Rightarrow>
       map address (resources b) =
         [JStr ''azurerm_linux_virtual_machine.test'', JStr ''azurerm_storage_account.test''] \<and>
       unknown_costs b =
         [JStr ''azurerm_managed_disk.broken'', JStr ''azurerm_kubernetes_cluster.k8s''] \<and>
       total_monthly_cost b = 70.08 + 1.84"
  by code_simp

lemma sample_broken_disk:
  "case get_resource_changes \<lparr>plan_data = JObj sample_plan\<rparr> of
     Inl e \<Rightarrow> False
   | Inr rcs \<Rightarrow>
       list_all type_hashable rcs \<and>
       get_handler (dict_get (rcs ! 1) ''type'' (JStr [])) = Inr (Some ManagedDiskHandler) \<and>
       fst (calculate_cost ManagedDiskHandler sample_env new_client (rcs ! 1)) = Inl TypeError"
  by code_simp

lemma unknown_run:
  "case fst (calculate_costs sample_env (Inr (JObj unknown_plan)) (Inl FileNotFoundError)
               new_calculator) of
     Inl e \<Rightarrow> False
   | Inr b \<Rightarrow>
       resources b = [] \<and> total_monthly_cost b = 0 \<and>
       unknown_costs b =
         [JStr ''azurerm_managed_disk.broken'', JStr ''azurerm_kubernetes_cluster.k8s'']"
  by code_simp

lemma sample_plans_well_formed:
  "list_all well_formed_change sample_changes"
  "list_all entry_type_hashable (filter create_or_update sample_changes)"
  "list_all well_formed_change [sample_changes ! 3, sample_changes ! 5]"
  "list_all entry_type_hashable
     (filter create_or_update [sample_changes ! 3, sample_changes ! 5])"
  by code_simp+




end
